theory Spec2Isabelle
  imports Complex_Main
begin

section \<open>The UI widget factory of d2systems\<close>

text \<open>
  A shallow embedding of \<^verbatim>\<open>d2core/d2systems/scene_widget_system.go\<close> and of the
  part of \<^verbatim>\<open>d2common/d2util/logger.go\<close> it calls. The factory and the
  entity-component world it embeds are one record, passed through every function and
  returned updated. A Go pointer that may be nil is an \<open>option\<close>; a nil dereference
  is a value of type \<open>panic\<close>, returned on the left of a sum.
\<close>

subsection \<open>Identifiers and foreign objects\<close>

text \<open>
  \<^verbatim>\<open>akara.EID\<close> is an unsigned integer. Objects of other packages that the factory
  only passes around (decoded sprites, render surfaces, renderers) are identified by a
  number, their address.
\<close>

type_synonym EID = nat
type_synonym ref = nat
type_synonym float64 = real

datatype panic =
    NilBitmapFont
  | NilRenderSystem
  | NilRenderer
  | NilButton
  | NilSprite
  | NilTexture

datatype color = White | RGBA nat nat nat nat

text \<open>
  Modelled from the spec: \<^verbatim>\<open>d2enum.SceneState\<close> is declared outside the sources;
  the spec names the two states \<open>Uninitialized\<close> and \<open>Booted\<close>, the first being
  the value a new factory has.
\<close>

datatype SceneState = SceneStateUninitialized | SceneStateBooted

subsection \<open>Components\<close>

record FileC =
  Path :: string

record FontTableC =
  Data :: "nat list option"

record SpriteC =
  Sprite :: "ref option"
  SpritePath :: string
  PalettePath :: string

text \<open>
  A \<^verbatim>\<open>*d2bitmapfont.BitmapFont\<close>. Two pointers are the same pointer when they are
  equal here: \<open>fontId\<close> is the object's identity, given at allocation.
\<close>

record bitmapfont =
  fontId :: ref
  fontSprite :: ref
  fontTable :: "nat list"
  fontColor :: color

record LabelC =
  text_of :: string
  Font :: "bitmapfont option"
  backgroundColor :: "color option"
  dirty :: bool

record ButtonLayout =
  Layout_SpritePath :: string
  Layout_PalettePath :: string
  FontPath :: string
  XSegments :: int
  YSegments :: int
  BaseFrame :: int
  DisabledFrame :: int
  HasImage :: bool
  AllowFrameChange :: bool

record ButtonStates =
  Normal :: EID
  Pressed :: EID
  Toggled :: EID
  PressedToggled :: EID
  Disabled :: EID

record ButtonSurfaces =
  Surface_Normal :: "ref option"
  Surface_Pressed :: "ref option"
  Surface_Toggled :: "ref option"
  Surface_PressedToggled :: "ref option"
  Surface_Disabled :: "ref option"

record ButtonC =
  Layout :: ButtonLayout
  States :: ButtonStates
  Button_Sprite :: "ref option"
  Surfaces :: ButtonSurfaces

type_synonym Rectangle = "float64 \<times> float64 \<times> float64 \<times> float64"

record CheckboxC =
  Checkbox_Sprite :: "ref option"
  ClickableRect :: Rectangle
  pressedFlag :: bool
  enabledFlag :: bool

datatype MouseButton = MouseButtonLeft | MouseButtonMiddle | MouseButtonRight

text \<open>
  The callback of an interactive component is a closure over the checkbox component;
  it is recorded as the entity whose checkbox it activates.
\<close>

record InteractiveC =
  InputVector :: "MouseButton option"
  CursorPosition :: "Rectangle option"
  Callback :: "EID option"

text \<open>A scene graph node holds a non-owning reference to its parent's node.\<close>

record SceneGraphNodeC =
  parent :: "EID option"

subsection \<open>The load queues\<close>

record buttonLoadQueueEntry =
  button_label :: EID
  button_sprite :: EID

record checkboxLoadQueueEntry =
  checkbox_sprite :: EID

record labelLoadQueueEntry =
  table :: EID
  sprite :: EID

text \<open>
  A Go map that is iterated is an association list: the order of the list is the order
  in which \<^verbatim>\<open>range\<close> happens to visit the keys, which Go leaves open. Lookup,
  insertion and deletion go through \<open>map_of\<close>, \<open>q_insert\<close> and \<open>q_delete\<close>.
\<close>

type_synonym buttonLoadQueue = "(EID \<times> buttonLoadQueueEntry) list"
type_synonym checkboxLoadQueue = "(EID \<times> checkboxLoadQueueEntry) list"
type_synonym labelLoadQueue = "(EID \<times> labelLoadQueueEntry) list"

definition q_delete :: "EID \<Rightarrow> (EID \<times> 'v) list \<Rightarrow> (EID \<times> 'v) list" where
  "q_delete k q = filter (\<lambda>kv. fst kv \<noteq> k) q"

definition q_insert :: "EID \<Rightarrow> 'v \<Rightarrow> (EID \<times> 'v) list \<Rightarrow> (EID \<times> 'v) list" where
  "q_insert k v q = (if k \<in> fst ` set q
                     then map (\<lambda>kv. if fst kv = k then (k, v) else kv) q
                     else q @ [(k, v)])"

subsection \<open>The resource cache\<close>

text \<open>
  Modelled from the spec: package \<^verbatim>\<open>d2cache\<close> is not among the sources. The spec
  gives its interface: \<^verbatim>\<open>retrieve(key)\<close> returns the stored artifact if there is
  one, \<^verbatim>\<open>insert(key, artifact, cost)\<close> either stores it or is rejected by the
  budget, and the total budget is fixed at construction. The text of the error is the
  cache's own; the model keeps it in the field \<open>rejection\<close>.
\<close>

record Cache =
  stored :: "(string \<times> bitmapfont) list"
  weight :: int
  budget :: int
  rejection :: string

text \<open>
  Modelled from the spec: \<^verbatim>\<open>d2cache.CreateCache\<close> is not among the sources; it
  gives an empty cache with the budget it is called with.
\<close>

definition CreateCache :: "int \<Rightarrow> string \<Rightarrow> Cache" where
  "CreateCache b msg = \<lparr>stored = [], weight = 0, budget = b, rejection = msg\<rparr>"

text \<open>
  Modelled from the spec: \<^verbatim>\<open>Cache.Retrieve\<close> is not among the sources; it gives
  the artifact stored under the key, if there is one.
\<close>

definition Retrieve :: "Cache \<Rightarrow> string \<Rightarrow> bitmapfont option" where
  "Retrieve c key = map_of (stored c) key"

text \<open>
  Modelled from the spec: \<^verbatim>\<open>Cache.Insert\<close> is not among the sources; the insert
  is rejected with an error when the cost does not fit into the budget, and stores the
  artifact otherwise.
\<close>

definition Insert :: "Cache \<Rightarrow> string \<Rightarrow> bitmapfont \<Rightarrow> int \<Rightarrow> string + Cache" where
  "Insert c key v cost =
     (if budget c < weight c + cost then Inl (rejection c)
      else Inr (c\<lparr>stored := (key, v) # stored c, weight := weight c + cost\<rparr>))"

definition fontCacheBudget :: int where
  "fontCacheBudget = 64"

subsection \<open>The logger\<close>

text \<open>
  \<^verbatim>\<open>Logger.Warning\<close> starts a goroutine that prints the message at the warning
  level and returns at once; \<^verbatim>\<open>Logger.Fatal\<close> does the same at the fatal level and
  then exits the process. The model records the print that was scheduled and whether the
  process has exited.
\<close>

type_synonym LogLevel = int

definition LogLevelNone :: LogLevel where "LogLevelNone = 0"
definition LogLevelFatal :: LogLevel where "LogLevelFatal = 1"
definition LogLevelError :: LogLevel where "LogLevelError = 2"
definition LogLevelWarning :: LogLevel where "LogLevelWarning = 3"
definition LogLevelInfo :: LogLevel where "LogLevelInfo = 4"
definition LogLevelDebug :: LogLevel where "LogLevelDebug = 5"
definition LogLevelUnspecified :: LogLevel where "LogLevelUnspecified = 6"

record Logger =
  scheduled :: "(LogLevel \<times> string) list"
  exited :: bool

definition Warning :: "string \<Rightarrow> Logger \<Rightarrow> Logger" where
  "Warning msg l = l\<lparr>scheduled := scheduled l @ [(LogLevelWarning, msg)]\<rparr>"

definition Fatal :: "string \<Rightarrow> Logger \<Rightarrow> Logger" where
  "Fatal msg l = l\<lparr>scheduled := scheduled l @ [(LogLevelFatal, msg)], exited := True\<rparr>"

subsection \<open>The sprite factory's requests\<close>

record SpriteRequest =
  req_x :: float64
  req_y :: float64
  req_image :: string
  req_palette :: string
  req_segments :: "(int \<times> int \<times> int) option"

record RenderSystemT =
  renderer :: "ref option"

subsection \<open>The factory and its world\<close>

record world =
  nextEntity :: EID
  entities :: "EID list"
  Components_File :: "EID \<rightharpoonup> FileC"
  Components_FontTable :: "EID \<rightharpoonup> FontTableC"
  Components_Sprite :: "EID \<rightharpoonup> SpriteC"
  Components_BitmapFont :: "EID \<rightharpoonup> bitmapfont option"
  Components_Label :: "EID \<rightharpoonup> LabelC"
  Components_Button :: "EID \<rightharpoonup> ButtonC"
  Components_Checkbox :: "EID \<rightharpoonup> CheckboxC"
  Components_Color :: "EID \<rightharpoonup> color"
  Components_Texture :: "EID \<rightharpoonup> ref option"
  Components_Ready :: "EID set"
  Components_SceneGraphNode :: "EID \<rightharpoonup> SceneGraphNodeC"
  Components_Interactive :: "EID \<rightharpoonup> InteractiveC"
  buttonLoadQueue :: buttonLoadQueue
  checkboxLoadQueue :: checkboxLoadQueue
  labelLoadQueue :: labelLoadQueue
  state :: SceneState
  RenderSystem :: "RenderSystemT option"
  bitmapFontCache :: Cache
  logger :: Logger
  spriteRequests :: "(EID \<times> SpriteRequest) list"
  fontsBuilt :: "bitmapfont list"
  nextSurface :: ref
  boundRenderer :: "ref \<rightharpoonup> ref option"
  now :: int


subsection \<open>What the factory takes from other packages\<close>

datatype work =
    ProcessButton EID
  | ProcessCheckbox EID
  | ProcessLabel EID
  | UpdateButton EID
  | UpdateCheckbox EID
  | UpdateLabel EID

text \<open>
  Constants and methods that the factory uses and that are declared outside the sources
  are parameters: the frame offsets of package \<^verbatim>\<open>d2button\<close>, the ceiling
  \<^verbatim>\<open>maxTimePerUpdate\<close>, the components that the providers of \<^verbatim>\<open>d2components\<close>
  create, the methods of labels, buttons, checkboxes and sprites, and the text of the
  cache's error. The clock is a parameter too: \<open>unitCost\<close> is the time that one unit
  of work takes, read by \<^verbatim>\<open>time.Since\<close> at the next check.
\<close>

record env =
  ButtonStatePressed :: int
  ButtonStateToggled :: int
  ButtonStatePressedToggled :: int
  maxTimePerUpdate :: int
  new_Label :: LabelC
  new_Button :: ButtonC
  new_Checkbox :: CheckboxC
  Label_SetText :: "string \<Rightarrow> LabelC \<Rightarrow> LabelC"
  Label_SetBackgroundColor :: "color \<Rightarrow> LabelC \<Rightarrow> LabelC"
  Label_IsDirty :: "LabelC \<Rightarrow> bool"
  Label_Render :: "ref option \<Rightarrow> LabelC \<Rightarrow> LabelC"
  Button_GetCurrentTexture :: "ButtonC \<Rightarrow> ref option"
  Checkbox_Update :: "CheckboxC \<Rightarrow> CheckboxC"
  GetCurrentFrameSurface :: "ref \<Rightarrow> ref option"
  cacheErrorText :: string
  unitCost :: "work \<Rightarrow> world \<Rightarrow> int"

subsection \<open>The world's interface\<close>

text \<open>
  The entity-component world (package \<^verbatim>\<open>akara\<close>) is not among the sources. The spec
  gives its interface: \<^verbatim>\<open>newEntity()\<close>, \<^verbatim>\<open>removeEntity(id)\<close>,
  \<^verbatim>\<open>addComponent(id)\<close>, \<^verbatim>\<open>getComponent(id)\<close> and subscriptions. A component
  store is a map from entities to components, and \<^verbatim>\<open>Get\<close> is the lookup in it.
\<close>

text \<open>
  Modelled from the spec: \<^verbatim>\<open>World.NewEntity\<close> is not among the sources; the new
  identifier is the next one of a counter, so that it is unique and never reused.
\<close>

definition NewEntity :: "world \<Rightarrow> EID \<times> world" where
  "NewEntity w =
     (nextEntity w,
      w\<lparr>nextEntity := Suc (nextEntity w), entities := entities w @ [nextEntity w]\<rparr>)"

text \<open>
  Modelled from the spec: \<^verbatim>\<open>World.RemoveEntity\<close> is not among the sources; the
  entity is destroyed, and its components with it.
\<close>

definition RemoveEntity :: "EID \<Rightarrow> world \<Rightarrow> world" where
  "RemoveEntity e w =
     w\<lparr>entities := removeAll e (entities w),
       Components_File := (Components_File w)(e := None),
       Components_FontTable := (Components_FontTable w)(e := None),
       Components_Sprite := (Components_Sprite w)(e := None),
       Components_BitmapFont := (Components_BitmapFont w)(e := None),
       Components_Label := (Components_Label w)(e := None),
       Components_Button := (Components_Button w)(e := None),
       Components_Checkbox := (Components_Checkbox w)(e := None),
       Components_Color := (Components_Color w)(e := None),
       Components_Texture := (Components_Texture w)(e := None),
       Components_Ready := Components_Ready w - {e},
       Components_SceneGraphNode := (Components_SceneGraphNode w)(e := None),
       Components_Interactive := (Components_Interactive w)(e := None)\<rparr>"

text \<open>
  Modelled from the spec: the \<^verbatim>\<open>Add\<close> of a component factory is not among the
  sources; it gives the component of the entity, a new one when the entity has none.
  \<open>get_or_new\<close> is the component that \<^verbatim>\<open>Add\<close> returns, given the new one and the
  result of \<^verbatim>\<open>Get\<close>; the functions after it are \<^verbatim>\<open>Add\<close> for the Ready marker,
  the Texture and the SceneGraphNode components.
\<close>

definition get_or_new :: "'a \<Rightarrow> 'a option \<Rightarrow> 'a" where
  "get_or_new d c = (case c of Some x \<Rightarrow> x | None \<Rightarrow> d)"

definition Ready_Add :: "EID \<Rightarrow> world \<Rightarrow> world" where
  "Ready_Add e w = w\<lparr>Components_Ready := insert e (Components_Ready w)\<rparr>"

definition Texture_Add :: "EID \<Rightarrow> world \<Rightarrow> world" where
  "Texture_Add e w =
     w\<lparr>Components_Texture :=
         (Components_Texture w)(e \<mapsto> get_or_new None (Components_Texture w e))\<rparr>"

definition SceneGraphNode_Add :: "EID \<Rightarrow> world \<Rightarrow> world" where
  "SceneGraphNode_Add e w =
     w\<lparr>Components_SceneGraphNode :=
         (Components_SceneGraphNode w)
           (e \<mapsto> get_or_new \<lparr>parent = None\<rparr> (Components_SceneGraphNode w e))\<rparr>"

text \<open>
  Modelled from the spec: \<^verbatim>\<open>SetParent\<close> is not among the sources; the node records
  a reference to its parent. \<open>SetParent e p\<close> is
  \<^verbatim>\<open>Components.SceneGraphNode.Add(e).SetParent(p's node)\<close>.
\<close>

definition SetParent :: "EID \<Rightarrow> EID \<Rightarrow> world \<Rightarrow> world" where
  "SetParent e p w =
     (let w1 = SceneGraphNode_Add e w
      in w1\<lparr>Components_SceneGraphNode :=
              (Components_SceneGraphNode w1)
                (e \<mapsto> (get_or_new \<lparr>parent = None\<rparr> (Components_SceneGraphNode w1 e))
                           \<lparr>parent := Some p\<rparr>)\<rparr>)"

text \<open>
  Modelled from the spec: \<^verbatim>\<open>Subscription.GetEntities\<close> is not among the sources; it
  lists the entities that have all the components of the filter. The three subscriptions of
  \<^verbatim>\<open>setupSubscriptions\<close> require Ready together with Label, Button and Checkbox.
\<close>

definition labelsToUpdate :: "world \<Rightarrow> EID list" where
  "labelsToUpdate w =
     filter (\<lambda>e. Components_Label w e \<noteq> None \<and> e \<in> Components_Ready w) (entities w)"

definition buttonsToUpdate :: "world \<Rightarrow> EID list" where
  "buttonsToUpdate w =
     filter (\<lambda>e. Components_Button w e \<noteq> None \<and> e \<in> Components_Ready w) (entities w)"

definition checkboxesToUpdate :: "world \<Rightarrow> EID list" where
  "checkboxesToUpdate w =
     filter (\<lambda>e. Components_Checkbox w e \<noteq> None \<and> e \<in> Components_Ready w) (entities w)"

text \<open>
  Modelled from the spec: \<^verbatim>\<open>SpriteFactory.Sprite\<close> is not among the sources; it
  returns a new entity at once and fills it in later through its own pipeline. The model
  records the request.
\<close>

definition SpriteFactory_Sprite ::
  "float64 \<Rightarrow> float64 \<Rightarrow> string \<Rightarrow> string \<Rightarrow> world \<Rightarrow> EID \<times> world" where
  "SpriteFactory_Sprite x y imgPath palPath w =
     (let (e, w1) = NewEntity w
      in (e, w1\<lparr>spriteRequests := spriteRequests w1 @
                  [(e, \<lparr>req_x = x, req_y = y, req_image = imgPath, req_palette = palPath,
                        req_segments = None\<rparr>)]\<rparr>))"

text \<open>
  Modelled from the spec: \<^verbatim>\<open>SpriteFactory.SegmentedSprite\<close> is not among the
  sources; it returns a new entity at once, for a sprite sheet cut into a grid of frames.
\<close>

definition SegmentedSprite ::
  "float64 \<Rightarrow> float64 \<Rightarrow> string \<Rightarrow> string \<Rightarrow> int \<Rightarrow> int \<Rightarrow> int \<Rightarrow> world \<Rightarrow> EID \<times> world" where
  "SegmentedSprite x y imgPath palPath xseg yseg frame w =
     (let (e, w1) = NewEntity w
      in (e, w1\<lparr>spriteRequests := spriteRequests w1 @
                  [(e, \<lparr>req_x = x, req_y = y, req_image = imgPath, req_palette = palPath,
                        req_segments = Some (xseg, yseg, frame)\<rparr>)]\<rparr>))"

text \<open>
  Modelled from the spec: \<^verbatim>\<open>d2bitmapfont.New\<close> is not among the sources; it builds
  a new font object from a decoded sprite and glyph table. Every call allocates, and
  \<open>fontsBuilt\<close> lists the objects built so far.
\<close>

definition d2bitmapfont_New :: "ref \<Rightarrow> nat list \<Rightarrow> color \<Rightarrow> world \<Rightarrow> bitmapfont \<times> world" where
  "d2bitmapfont_New s t c w =
     (let bmf = \<lparr>fontId = length (fontsBuilt w), fontSprite = s, fontTable = t, fontColor = c\<rparr>
      in (bmf, w\<lparr>fontsBuilt := fontsBuilt w @ [bmf]\<rparr>))"

text \<open>
  Modelled from the spec: \<^verbatim>\<open>Sprite.BindRenderer\<close> is not among the sources; it
  binds the sprite to the renderer it is given.
\<close>

definition BindRenderer :: "ref \<Rightarrow> ref option \<Rightarrow> world \<Rightarrow> world" where
  "BindRenderer s r w = w\<lparr>boundRenderer := (boundRenderer w)(s \<mapsto> r)\<rparr>"

text \<open>
  Modelled from the spec: \<^verbatim>\<open>Renderer.NewSurface\<close> is not among the sources; it
  gives a new surface.
\<close>

definition NewSurface :: "world \<Rightarrow> ref \<times> world" where
  "NewSurface w = (nextSurface w, w\<lparr>nextSurface := Suc (nextSurface w)\<rparr>)"

subsection \<open>Construction and boot\<close>

text \<open>
  \<^verbatim>\<open>NewUIWidgetFactory\<close> fills in the logger, a cache of budget 64 and three empty
  queues; the state and the render system keep their zero values. The base system \<open>b\<close>
  brings the world. Registering the system with the world and injecting the component
  factories change nothing that the model holds.
\<close>

definition NewUIWidgetFactory :: "env \<Rightarrow> world \<Rightarrow> Logger \<Rightarrow> world" where
  "NewUIWidgetFactory env b l =
     b\<lparr>logger := l,
       bitmapFontCache := CreateCache fontCacheBudget (cacheErrorText env),
       buttonLoadQueue := [],
       checkboxLoadQueue := [],
       labelLoadQueue := [],
       state := SceneStateUninitialized,
       RenderSystem := None\<rparr>"

definition boot :: "world \<Rightarrow> world" where
  "boot w =
     (case RenderSystem w of
        None \<Rightarrow> w
      | Some rs \<Rightarrow>
          (case renderer rs of
             None \<Rightarrow> w
           | Some r \<Rightarrow> w\<lparr>state := SceneStateBooted\<rparr>))"

subsection \<open>Labels\<close>

definition Label :: "env \<Rightarrow> string \<Rightarrow> string \<Rightarrow> string \<Rightarrow> world \<Rightarrow> EID \<times> world" where
  "Label env txt font palettePath w =
     (let tablePath = font @ ''.tbl'';
          spritePath = font @ ''.dc6'';
          (labelEID, w1) = NewEntity w;
          (tableEID, w2) = NewEntity w1;
          w3 = w2\<lparr>Components_File :=
                   (Components_File w2)
                     (tableEID \<mapsto> (get_or_new \<lparr>Path = []\<rparr> (Components_File w2 tableEID))
                                   \<lparr>Path := tablePath\<rparr>)\<rparr>;
          (spriteEID, w4) = SpriteFactory_Sprite 0 0 spritePath palettePath w3;
          w5 = w4\<lparr>labelLoadQueue :=
                   q_insert labelEID \<lparr>table = tableEID, sprite = spriteEID\<rparr> (labelLoadQueue w4)\<rparr>;
          label = get_or_new (new_Label env) (Components_Label w5 labelEID)
      in (labelEID,
          w5\<lparr>Components_Label :=
               (Components_Label w5)(labelEID \<mapsto> Label_SetText env txt label)\<rparr>))"

definition fontCacheKey :: "string \<Rightarrow> string \<Rightarrow> string \<Rightarrow> string" where
  "fontCacheKey t s p = t @ ''::'' @ s @ ''::'' @ p"

definition createBitmapFont :: "world \<Rightarrow> labelLoadQueueEntry \<Rightarrow> bitmapfont option \<times> world" where
  "createBitmapFont w entry =
     (case Components_FontTable w (table entry) of
        None \<Rightarrow> (None, w)
      | Some tbl \<Rightarrow>
          (case Components_Sprite w (sprite entry) of
             None \<Rightarrow> (None, w)
           | Some spr \<Rightarrow>
               (case Sprite spr of
                  None \<Rightarrow> (None, w)
                | Some s \<Rightarrow>
                    (case Data tbl of
                       None \<Rightarrow> (None, w)
                     | Some d \<Rightarrow>
                         (let (bmf, w1) = d2bitmapfont_New s d White w
                          in (Some bmf, w1))))))"

definition addBitmapFontForLabel :: "world \<Rightarrow> EID \<Rightarrow> world" where
  "addBitmapFontForLabel w labelEID =
     (case map_of (labelLoadQueue w) labelEID of
        None \<Rightarrow> w
      | Some entry \<Rightarrow>
          if \<not> (Components_FontTable w (table entry) \<noteq> None \<and>
                Components_Sprite w (sprite entry) \<noteq> None)
          then w
          else
            (case Components_File w (table entry) of
               None \<Rightarrow> w
             | Some tableFile \<Rightarrow>
                 (case Components_Sprite w (sprite entry) of
                    None \<Rightarrow> w
                  | Some spr \<Rightarrow>
                      (let cacheKey =
                             fontCacheKey (Path tableFile) (SpritePath spr) (PalettePath spr)
                       in case Retrieve (bitmapFontCache w) cacheKey of
                            Some cached \<Rightarrow>
                              (let w1 = w\<lparr>Components_BitmapFont :=
                                           (Components_BitmapFont w)(labelEID \<mapsto> Some cached)\<rparr>;
                                   w2 = Ready_Add labelEID w1
                               in w2\<lparr>labelLoadQueue := q_delete labelEID (labelLoadQueue w2)\<rparr>)
                          | None \<Rightarrow>
                              (case createBitmapFont w entry of
                                 (None, w1) \<Rightarrow> w1
                               | (Some bmf, w1) \<Rightarrow>
                                   (let w2 =
                                          (case Insert (bitmapFontCache w1) cacheKey bmf 1 of
                                             Inl err \<Rightarrow> w1\<lparr>logger := Warning err (logger w1)\<rparr>
                                           | Inr c \<Rightarrow> w1\<lparr>bitmapFontCache := c\<rparr>)
                                    in w2\<lparr>Components_BitmapFont :=
                                            (Components_BitmapFont w2)
                                              (labelEID \<mapsto> Some bmf)\<rparr>))))))"

text \<open>
  Indexing the Go map \<^verbatim>\<open>labelLoadQueue\<close> with a key it does not hold gives the zero
  entry, whose \<open>table\<close> is the identifier 0.
\<close>

definition labelLoadQueue_index :: "world \<Rightarrow> EID \<Rightarrow> labelLoadQueueEntry" where
  "labelLoadQueue_index w k =
     (case map_of (labelLoadQueue w) k of
        Some entry \<Rightarrow> entry
      | None \<Rightarrow> \<lparr>table = 0, sprite = 0\<rparr>)"

definition processLabel :: "env \<Rightarrow> world \<Rightarrow> EID \<Rightarrow> panic + world" where
  "processLabel env w labelEID =
     (case Components_BitmapFont w labelEID of
        None \<Rightarrow> Inr (addBitmapFontForLabel w labelEID)
      | Some bmfComponent \<Rightarrow>
          (case bmfComponent of
             None \<Rightarrow> Inl NilBitmapFont
           | Some bmf \<Rightarrow>
               (case RenderSystem w of
                  None \<Rightarrow> Inl NilRenderSystem
                | Some rs \<Rightarrow>
                    (let w1 = BindRenderer (fontSprite bmf) (renderer rs) w;
                         label = get_or_new (new_Label env) (Components_Label w1 labelEID);
                         w2 = w1\<lparr>Components_Label :=
                                  (Components_Label w1)(labelEID \<mapsto> label\<lparr>Font := Some bmf\<rparr>)\<rparr>;
                         w3 = RemoveEntity (table (labelLoadQueue_index w2 labelEID)) w2;
                         w4 = Ready_Add labelEID w3
                     in Inr (w4\<lparr>labelLoadQueue := q_delete labelEID (labelLoadQueue w4)\<rparr>)))))"

definition updateLabel :: "env \<Rightarrow> world \<Rightarrow> EID \<Rightarrow> panic + world" where
  "updateLabel env w labelEID =
     (case Components_Label w labelEID of
        None \<Rightarrow> Inr w
      | Some label0 \<Rightarrow>
          (case Components_BitmapFont w labelEID of
             None \<Rightarrow> Inr w
           | Some bmf \<Rightarrow>
               (let label1 = (if Font label0 \<noteq> bmf then label0\<lparr>Font := bmf\<rparr> else label0);
                    label2 = (case Components_Color w labelEID of
                                Some col \<Rightarrow> Label_SetBackgroundColor env col label1
                              | None \<Rightarrow> label1);
                    w1 = w\<lparr>Components_Label := (Components_Label w)(labelEID \<mapsto> label2)\<rparr>
                in if \<not> Label_IsDirty env label2 then Inr w1
                   else
                     (case RenderSystem w1 of
                        None \<Rightarrow> Inl NilRenderSystem
                      | Some rs \<Rightarrow>
                          (let w2 = Texture_Add labelEID w1
                           in case renderer rs of
                                None \<Rightarrow> Inl NilRenderer
                              | Some r \<Rightarrow>
                                  (let (surface, w3) = NewSurface w2;
                                       w4 = w3\<lparr>Components_Texture :=
                                                (Components_Texture w3)
                                                  (labelEID \<mapsto> Some surface)\<rparr>
                                   in Inr (w4\<lparr>Components_Label :=
                                                (Components_Label w4)
                                                  (labelEID \<mapsto>
                                                     Label_Render env (Some surface) label2)\<rparr>)))))))"


subsection \<open>Buttons\<close>

definition isNotSegmented :: int where
  "isNotSegmented = - 1"

definition set_States :: "EID \<Rightarrow> ButtonStates \<Rightarrow> world \<Rightarrow> world" where
  "set_States buttonEID st w =
     (case Components_Button w buttonEID of
        None \<Rightarrow> w
      | Some button \<Rightarrow>
          w\<lparr>Components_Button := (Components_Button w)(buttonEID \<mapsto> button\<lparr>States := st\<rparr>)\<rparr>)"

definition renderButtonStates :: "world \<Rightarrow> EID \<Rightarrow> panic + world" where
  "renderButtonStates w buttonEID =
     (case Components_Button w buttonEID of
        None \<Rightarrow> Inl NilButton
      | Some button \<Rightarrow>
          (let rdyNormal = Normal (States button) \<in> Components_Ready w;
               rdyPressed = Pressed (States button) \<in> Components_Ready w;
               rdyToggled = Toggled (States button) \<in> Components_Ready w;
               rdyPressedToggled = PressedToggled (States button) \<in> Components_Ready w;
               rdyDisabled = Disabled (States button) \<in> Components_Ready w;
               ready = (rdyNormal \<and> rdyPressed \<and> rdyToggled \<and> rdyPressedToggled \<and> rdyDisabled)
           in if \<not> ready then Inr w
              else (let w1 = Ready_Add buttonEID w
                    in Inr (w1\<lparr>buttonLoadQueue := q_delete buttonEID (buttonLoadQueue w1)\<rparr>))))"

definition processButtonStates :: "env \<Rightarrow> world \<Rightarrow> EID \<Rightarrow> panic + world" where
  "processButtonStates env w buttonEID =
     (case Components_Button w buttonEID of
        None \<Rightarrow> Inl NilButton
      | Some button \<Rightarrow>
          (let baseFrame = BaseFrame (Layout button);
               hasBeenProcessed = (Normal (States button) > 0)
           in if hasBeenProcessed then renderButtonStates w buttonEID
              else
                (let img = Layout_SpritePath (Layout button);
                     pal = Layout_PalettePath (Layout button);
                     sx = XSegments (Layout button);
                     sy = YSegments (Layout button);
                     (normal, w1) = SegmentedSprite 0 0 img pal sx sy baseFrame w;
                     st1 = \<lparr>Normal = normal, Pressed = normal, Toggled = normal,
                            PressedToggled = normal, Disabled = normal\<rparr>;
                     w2 = set_States buttonEID st1 w1
                 in if HasImage (Layout button) \<and> AllowFrameChange (Layout button)
                    then
                      (let (pressed, w3) =
                             SegmentedSprite 0 0 img pal sx sy
                               (baseFrame + ButtonStatePressed env) w2;
                           (toggled, w4) =
                             SegmentedSprite 0 0 img pal sx sy
                               (baseFrame + ButtonStateToggled env) w3;
                           (pressedToggled, w5) =
                             SegmentedSprite 0 0 img pal sx sy
                               (baseFrame + ButtonStatePressedToggled env) w4;
                           st2 = st1\<lparr>Pressed := pressed, Toggled := toggled,
                                     PressedToggled := pressedToggled\<rparr>;
                           w6 = set_States buttonEID st2 w5
                       in if DisabledFrame (Layout button) \<noteq> isNotSegmented
                          then
                            (let (disabled, w7) =
                                   SegmentedSprite 0 0 img pal sx sy
                                     (DisabledFrame (Layout button)) w6
                             in Inr (set_States buttonEID (st2\<lparr>Disabled := disabled\<rparr>) w7))
                          else Inr w6)
                    else Inr w2)))"

definition processButton :: "env \<Rightarrow> world \<Rightarrow> EID \<Rightarrow> panic + world" where
  "processButton env w buttonEID =
     (case map_of (buttonLoadQueue w) buttonEID of
        None \<Rightarrow> Inr w
      | Some entry \<Rightarrow>
          (let labelEID = button_label entry;
               spriteEID = button_sprite entry;
               labelReady = labelEID \<in> Components_Ready w;
               spriteReady = spriteEID \<in> Components_Ready w
           in if \<not> (labelReady \<and> spriteReady) then Inr w
              else
                (let button = get_or_new (new_Button env) (Components_Button w buttonEID);
                     w1 = w\<lparr>Components_Button := (Components_Button w)(buttonEID \<mapsto> button)\<rparr>;
                     w2 = SceneGraphNode_Add buttonEID w1;
                     w3 = (case Components_Sprite w2 spriteEID of
                             None \<Rightarrow> w2
                           | Some spr \<Rightarrow>
                               SetParent spriteEID buttonEID
                                 (w2\<lparr>Components_Button :=
                                       (Components_Button w2)
                                         (buttonEID \<mapsto> button\<lparr>Button_Sprite := Sprite spr\<rparr>)\<rparr>));
                     w4 = (case Components_Label w3 labelEID of
                             None \<Rightarrow> w3
                           | Some l \<Rightarrow> SetParent labelEID buttonEID w3)
                 in processButtonStates env w4 buttonEID)))"

definition updateButton :: "env \<Rightarrow> world \<Rightarrow> EID \<Rightarrow> panic + world" where
  "updateButton env w buttonEID =
     (case Components_Button w buttonEID of
        None \<Rightarrow> Inr w
      | Some button \<Rightarrow>
          (case (Components_Texture w (Normal (States button)),
                 Components_Texture w (Pressed (States button)),
                 Components_Texture w (Toggled (States button)),
                 Components_Texture w (PressedToggled (States button)),
                 Components_Texture w (Disabled (States button))) of
             (Some normal, Some pressed, Some toggled, Some pressedToggled, Some disabled) \<Rightarrow>
               (let button1 = button\<lparr>Surfaces :=
                                \<lparr>Surface_Normal = normal, Surface_Pressed = pressed,
                                 Surface_Toggled = toggled,
                                 Surface_PressedToggled = pressedToggled,
                                 Surface_Disabled = disabled\<rparr>\<rparr>;
                    w1 = w\<lparr>Components_Button := (Components_Button w)(buttonEID \<mapsto> button1)\<rparr>;
                    w2 = Texture_Add buttonEID w1
                in Inr (w2\<lparr>Components_Texture :=
                            (Components_Texture w2)
                              (buttonEID \<mapsto> Button_GetCurrentTexture env button1)\<rparr>))
           | _ \<Rightarrow> Inr w))"

subsection \<open>Checkboxes\<close>

definition processCheckbox :: "env \<Rightarrow> world \<Rightarrow> EID \<Rightarrow> panic + world" where
  "processCheckbox env w checkboxEID =
     (case map_of (checkboxLoadQueue w) checkboxEID of
        None \<Rightarrow> Inr w
      | Some entry \<Rightarrow>
          (let spriteEID = checkbox_sprite entry
           in if spriteEID \<notin> Components_Ready w then Inr w
              else
                (let checkbox = get_or_new (new_Checkbox env) (Components_Checkbox w checkboxEID);
                     w1 = w\<lparr>Components_Checkbox :=
                             (Components_Checkbox w)(checkboxEID \<mapsto> checkbox)\<rparr>;
                     w2 = SceneGraphNode_Add checkboxEID w1;
                     checkbox1 = (case Components_Sprite w2 spriteEID of
                                    None \<Rightarrow> checkbox
                                  | Some spr \<Rightarrow> checkbox\<lparr>Checkbox_Sprite := Sprite spr\<rparr>);
                     w3 = (case Components_Sprite w2 spriteEID of
                             None \<Rightarrow> w2
                           | Some spr \<Rightarrow>
                               SetParent spriteEID checkboxEID
                                 (w2\<lparr>Components_Checkbox :=
                                       (Components_Checkbox w2)(checkboxEID \<mapsto> checkbox1)\<rparr>));
                     interactive =
                       get_or_new \<lparr>InputVector = None, CursorPosition = None, Callback = None\<rparr>
                         (Components_Interactive w3 checkboxEID);
                     w4 = w3\<lparr>Components_Interactive :=
                              (Components_Interactive w3)
                                (checkboxEID \<mapsto>
                                   interactive\<lparr>InputVector := Some MouseButtonLeft,
                                               CursorPosition := Some (ClickableRect checkbox1),
                                               Callback := Some checkboxEID\<rparr>)\<rparr>;
                     w5 = Texture_Add checkboxEID w4;
                     w6 = Ready_Add checkboxEID w5
                 in Inr (w6\<lparr>checkboxLoadQueue := q_delete checkboxEID (checkboxLoadQueue w6)\<rparr>))))"

text \<open>
  The right-hand side of the last assignment is evaluated before the store through
  \<^verbatim>\<open>checkboxTexture\<close>: a nil sprite panics first, a nil texture pointer second.
\<close>

definition updateCheckbox :: "env \<Rightarrow> world \<Rightarrow> EID \<Rightarrow> panic + world" where
  "updateCheckbox env w checkboxEID =
     (case Components_Checkbox w checkboxEID of
        None \<Rightarrow> Inr w
      | Some checkbox \<Rightarrow>
          (let checkbox1 = Checkbox_Update env checkbox;
               w1 = w\<lparr>Components_Checkbox :=
                       (Components_Checkbox w)(checkboxEID \<mapsto> checkbox1)\<rparr>
           in case Checkbox_Sprite checkbox1 of
                None \<Rightarrow> Inl NilSprite
              | Some spr \<Rightarrow>
                  (case Components_Texture w1 checkboxEID of
                     None \<Rightarrow> Inl NilTexture
                   | Some checkboxTexture \<Rightarrow>
                       Inr (w1\<lparr>Components_Texture :=
                                (Components_Texture w1)
                                  (checkboxEID \<mapsto> GetCurrentFrameSurface env spr)\<rparr>))))"

subsection \<open>The tick\<close>

fun doWork :: "env \<Rightarrow> work \<Rightarrow> world \<Rightarrow> panic + world" where
  "doWork env (ProcessButton e) w = processButton env w e"
| "doWork env (ProcessCheckbox e) w = processCheckbox env w e"
| "doWork env (ProcessLabel e) w = processLabel env w e"
| "doWork env (UpdateButton e) w = updateButton env w e"
| "doWork env (UpdateCheckbox e) w = updateCheckbox env w e"
| "doWork env (UpdateLabel e) w = updateLabel env w e"

text \<open>
  One of the six loops of \<^verbatim>\<open>Update\<close>: before each unit of work the time since
  \<open>start\<close> is compared with the ceiling, and the function returns when it is above.
  The flag says whether the loop returned from \<^verbatim>\<open>Update\<close>. A unit of work takes
  \<open>unitCost\<close> on the clock.
\<close>

fun drain :: "env \<Rightarrow> int \<Rightarrow> work list \<Rightarrow> world \<Rightarrow> panic + (bool \<times> world)" where
  "drain env start [] w = Inr (False, w)"
| "drain env start (u # us) w =
     (if now w - start > maxTimePerUpdate env then Inr (True, w)
      else (case doWork env u w of
              Inl p \<Rightarrow> Inl p
            | Inr w1 \<Rightarrow> drain env start us (w1\<lparr>now := now w1 + unitCost env u w\<rparr>)))"

text \<open>The loops in sequence: a loop that returned ends the tick.\<close>

fun loops :: "env \<Rightarrow> int \<Rightarrow> (world \<Rightarrow> work list) list \<Rightarrow> world \<Rightarrow> panic + world" where
  "loops env start [] w = Inr w"
| "loops env start (units # rest) w =
     (case drain env start (units w) w of
        Inl p \<Rightarrow> Inl p
      | Inr (True, w1) \<Rightarrow> Inr w1
      | Inr (False, w1) \<Rightarrow> loops env start rest w1)"

definition Update :: "env \<Rightarrow> world \<Rightarrow> panic + world" where
  "Update env w =
     (let start = now w
      in if state w \<noteq> SceneStateBooted then Inr (boot w)
         else loops env start
                [\<lambda>w. map ProcessButton (map fst (buttonLoadQueue w)),
                 \<lambda>w. map ProcessCheckbox (map fst (checkboxLoadQueue w)),
                 \<lambda>w. map ProcessLabel (map fst (labelLoadQueue w)),
                 \<lambda>w. map UpdateButton (buttonsToUpdate w),
                 \<lambda>w. map UpdateCheckbox (checkboxesToUpdate w),
                 \<lambda>w. map UpdateLabel (labelsToUpdate w)]
                w)"

subsection \<open>Checkboxes that wait for their texture\<close>

text \<open>
  The factory's invariant on checkboxes: an entity that has a Checkbox component and no
  Texture component yet is only a waiting checkbox. It is not ready, it is not a key of
  the button queue or of the label queue, and it carries no BitmapFont component.
\<close>

definition checkboxInvariant :: "world \<Rightarrow> bool" where
  "checkboxInvariant w =
     (\<forall>e. Components_Checkbox w e \<noteq> None \<longrightarrow> Components_Texture w e = None \<longrightarrow>
          e \<notin> Components_Ready w \<and>
          e \<notin> fst ` set (buttonLoadQueue w) \<and>
          e \<notin> fst ` set (labelLoadQueue w) \<and>
          Components_BitmapFont w e = None)"

subsection \<open>Example environment and worlds\<close>

text \<open>
  A concrete environment and concrete worlds, on which the theorems below are
  instantiated. The foreign methods are given simple bodies; the ceiling is 16 ms in
  nanoseconds and every unit of work takes 1 ms.
\<close>

definition env0 :: env where
  "env0 =
     \<lparr>ButtonStatePressed = 1, ButtonStateToggled = 2, ButtonStatePressedToggled = 3,
      maxTimePerUpdate = 16000000,
      new_Label = \<lparr>text_of = [], Font = None, backgroundColor = None, dirty = False\<rparr>,
      new_Button =
        \<lparr>Layout = \<lparr>Layout_SpritePath = [], Layout_PalettePath = [], FontPath = [],
                    XSegments = 0, YSegments = 0, BaseFrame = 0, DisabledFrame = 0,
                    HasImage = False, AllowFrameChange = False\<rparr>,
         States = \<lparr>Normal = 0, Pressed = 0, Toggled = 0, PressedToggled = 0, Disabled = 0\<rparr>,
         Button_Sprite = None,
         Surfaces = \<lparr>Surface_Normal = None, Surface_Pressed = None, Surface_Toggled = None,
                      Surface_PressedToggled = None, Surface_Disabled = None\<rparr>\<rparr>,
      new_Checkbox = \<lparr>Checkbox_Sprite = None, ClickableRect = (0, 0, 0, 0),
                       pressedFlag = False, enabledFlag = False\<rparr>,
      Label_SetText = (\<lambda>t l. l\<lparr>text_of := t, dirty := True\<rparr>),
      Label_SetBackgroundColor = (\<lambda>c l. l\<lparr>backgroundColor := Some c, dirty := True\<rparr>),
      Label_IsDirty = dirty,
      Label_Render = (\<lambda>s l. l\<lparr>dirty := False\<rparr>),
      Button_GetCurrentTexture = (\<lambda>b. Surface_Normal (Surfaces b)),
      Checkbox_Update = (\<lambda>c. c),
      GetCurrentFrameSurface = (\<lambda>s. Some s),
      cacheErrorText = ''budget exceeded'',
      unitCost = (\<lambda>u w. 1000000)\<rparr>"

definition logger0 :: Logger where
  "logger0 = \<lparr>scheduled = [], exited = False\<rparr>"

text \<open>A world with no entity, and the factory built on it.\<close>

definition base0 :: world where
  "base0 =
     \<lparr>nextEntity = 1, entities = [],
      Components_File = Map.empty, Components_FontTable = Map.empty,
      Components_Sprite = Map.empty, Components_BitmapFont = Map.empty,
      Components_Label = Map.empty, Components_Button = Map.empty,
      Components_Checkbox = Map.empty, Components_Color = Map.empty,
      Components_Texture = Map.empty, Components_Ready = {},
      Components_SceneGraphNode = Map.empty, Components_Interactive = Map.empty,
      buttonLoadQueue = [], checkboxLoadQueue = [], labelLoadQueue = [],
      state = SceneStateUninitialized, RenderSystem = None,
      bitmapFontCache = CreateCache 0 [],
      logger = logger0, spriteRequests = [], fontsBuilt = [], nextSurface = 0,
      boundRenderer = Map.empty, now = 0\<rparr>"

definition factory0 :: world where
  "factory0 = NewUIWidgetFactory env0 base0 logger0"

text \<open>The factory after boot, with renderer 1.\<close>

definition booted0 :: world where
  "booted0 = factory0\<lparr>state := SceneStateBooted, RenderSystem := Some \<lparr>renderer = Some 1\<rparr>\<rparr>"

text \<open>
  A button 1 waiting on label 2 and sprite 3, its states not built yet; \<open>buttonA\<close> has
  frames for every state but the disabled one, \<open>buttonB\<close> has one frame only.
\<close>

definition layoutA :: ButtonLayout where
  "layoutA =
     \<lparr>Layout_SpritePath = ''/data/global/ui/button.dc6'', Layout_PalettePath = ''units'',
      FontPath = [], XSegments = 1, YSegments = 1, BaseFrame = 0,
      DisabledFrame = - 1, HasImage = True, AllowFrameChange = True\<rparr>"

definition buttonA :: ButtonC where
  "buttonA = (new_Button env0)\<lparr>Layout := layoutA\<rparr>"

definition buttonB :: ButtonC where
  "buttonB = (new_Button env0)\<lparr>Layout := layoutA\<lparr>DisabledFrame := 4, AllowFrameChange := False\<rparr>\<rparr>"

definition buttonWorld :: "ButtonC \<Rightarrow> world" where
  "buttonWorld button =
     booted0\<lparr>nextEntity := 4, entities := [1, 2, 3],
             Components_Button := [1 \<mapsto> button],
             Components_Ready := {2, 3},
             buttonLoadQueue := [(1, \<lparr>button_label = 2, button_sprite = 3\<rparr>)]\<rparr>"

text \<open>The same button with its five states built as the entities 4 to 7, all ready.\<close>

definition buttonBuilt :: world where
  "buttonBuilt =
     (buttonWorld
        (buttonA\<lparr>States := \<lparr>Normal = 4, Pressed = 5, Toggled = 6, PressedToggled = 7,
                              Disabled = 4\<rparr>\<rparr>))
       \<lparr>nextEntity := 8, entities := [1, 2, 3, 4, 5, 6, 7],
        Components_Ready := {2, 3, 4, 5, 6, 7}\<rparr>"

text \<open>
  The label of the scenario: created with text \<open>Test\<close>, font path \<open>F\<close> and palette
  \<open>P\<close>; it is entity 1, its glyph table entity 2 and its sprite entity 3. In
  \<open>labelLoaded\<close> the loader has attached the glyph table and the decoded sprite; no
  entity carries the Ready marker.
\<close>

definition labelCreated :: world where
  "labelCreated = snd (Label env0 ''Test'' ''F'' ''P'' booted0)"

definition labelLoaded :: world where
  "labelLoaded =
     labelCreated\<lparr>Components_FontTable := [2 \<mapsto> \<lparr>Data = Some [1, 2, 3]\<rparr>],
                  Components_Sprite :=
                    [3 \<mapsto> \<lparr>Sprite = Some 10, SpritePath = ''F.dc6'', PalettePath = ''P''\<rparr>]\<rparr>"

text \<open>The same world with a font for the label's key already in the cache.\<close>

definition cachedFont :: bitmapfont where
  "cachedFont = \<lparr>fontId = 0, fontSprite = 11, fontTable = [1, 2, 3], fontColor = White\<rparr>"

definition labelHit :: world where
  "labelHit =
     labelLoaded\<lparr>fontsBuilt := [cachedFont],
                 bitmapFontCache :=
                   (bitmapFontCache labelLoaded)
                     \<lparr>stored := [(''F.tbl::F.dc6::P'', cachedFont)], weight := 1\<rparr>\<rparr>"

text \<open>
  A cache that holds 64 fonts, each stored at cost 1, under keys other than the label's,
  and the world of two labels with the same font and palette in front of that cache:
  label 1 with table 2 and sprite 3, label 4 with table 5 and sprite 6.
\<close>

definition otherFont :: "nat \<Rightarrow> bitmapfont" where
  "otherFont i = \<lparr>fontId = i, fontSprite = 100 + i, fontTable = [], fontColor = White\<rparr>"

definition fullCache :: Cache where
  "fullCache =
     \<lparr>stored =
        map (\<lambda>i. (fontCacheKey (''f'' @ replicate i (CHR ''x'') @ ''.tbl'')
                     (''f'' @ replicate i (CHR ''x'') @ ''.dc6'') ''P'',
                   otherFont i))
          [0..<64],
      weight = 64, budget = fontCacheBudget, rejection = cacheErrorText env0\<rparr>"

definition twoLabels :: world where
  "twoLabels =
     (snd (Label env0 ''Again'' ''F'' ''P'' labelCreated))
       \<lparr>Components_FontTable :=
          [2 \<mapsto> \<lparr>Data = Some [1, 2, 3]\<rparr>, 5 \<mapsto> \<lparr>Data = Some [1, 2, 3]\<rparr>],
        Components_Sprite :=
          [3 \<mapsto> \<lparr>Sprite = Some 10, SpritePath = ''F.dc6'', PalettePath = ''P''\<rparr>,
           6 \<mapsto> \<lparr>Sprite = Some 12, SpritePath = ''F.dc6'', PalettePath = ''P''\<rparr>]\<rparr>"

definition twoLabelsFull :: world where
  "twoLabelsFull =
     twoLabels\<lparr>bitmapFontCache := fullCache, fontsBuilt := map otherFont [0..<64]\<rparr>"

text \<open>
  A checkbox 1 waiting on its sprite 2, which is loaded and ready.
\<close>

definition checkboxWorld :: world where
  "checkboxWorld =
     booted0\<lparr>nextEntity := 3, entities := [1, 2],
             Components_Checkbox := [1 \<mapsto> new_Checkbox env0],
             Components_Sprite :=
               [2 \<mapsto> \<lparr>Sprite = Some 20, SpritePath = ''checkbox.dc6'', PalettePath = ''P''\<rparr>],
             Components_Ready := {2},
             checkboxLoadQueue := [(1, \<lparr>checkbox_sprite = 2\<rparr>)]\<rparr>"

definition checkboxDone :: world where
  "checkboxDone = projr (processCheckbox env0 checkboxWorld 1)"

section \<open>Properties\<close>

subsection \<open>Auxiliary facts\<close>

lemmas world_ops =
  NewEntity_def RemoveEntity_def Ready_Add_def Texture_Add_def SceneGraphNode_Add_def
  SetParent_def SpriteFactory_Sprite_def SegmentedSprite_def d2bitmapfont_New_def
  BindRenderer_def NewSurface_def set_States_def get_or_new_def

lemmas example_defs =
  env0_def logger0_def base0_def factory0_def booted0_def NewUIWidgetFactory_def
  CreateCache_def fontCacheBudget_def

lemmas button_defs = buttonWorld_def buttonA_def buttonB_def layoutA_def buttonBuilt_def

lemma renderButtonStates_ready:
  assumes "renderButtonStates w b = Inr w'"
  shows "\<exists>button. Components_Button w b = Some button \<and> Components_Button w' b = Some button \<and>
     (if Normal (States button) \<in> Components_Ready w \<and>
         Pressed (States button) \<in> Components_Ready w \<and>
         Toggled (States button) \<in> Components_Ready w \<and>
         PressedToggled (States button) \<in> Components_Ready w \<and>
         Disabled (States button) \<in> Components_Ready w
      then Components_Ready w' = insert b (Components_Ready w) \<and>
           buttonLoadQueue w' = q_delete b (buttonLoadQueue w)
      else w' = w)"
  using assms
  by (auto simp: renderButtonStates_def Let_def world_ops split: option.splits if_splits)

lemma processButtonStates_construct:
  assumes "Components_Button w b = Some button" "\<not> 0 < Normal (States button)"
  shows "\<exists>w' button'. processButtonStates env w b = Inr w' \<and>
     Components_Button w' b = Some button' \<and>
     Layout button' = Layout button \<and>
     Components_Ready w' = Components_Ready w \<and> buttonLoadQueue w' = buttonLoadQueue w \<and>
     Normal (States button') = nextEntity w \<and>
     (DisabledFrame (Layout button) = isNotSegmented \<longrightarrow>
        Disabled (States button') = Normal (States button')) \<and>
     (\<not> HasImage (Layout button) \<or> \<not> AllowFrameChange (Layout button) \<longrightarrow>
        Pressed (States button') = Normal (States button') \<and>
        Toggled (States button') = Normal (States button') \<and>
        PressedToggled (States button') = Normal (States button') \<and>
        Disabled (States button') = Normal (States button'))"
  using assms
  by (simp add: processButtonStates_def Let_def world_ops split: option.splits if_splits)

lemma processButton_skip:
  "map_of (buttonLoadQueue w) b = None \<Longrightarrow> processButton env w b = Inr w"
  "map_of (buttonLoadQueue w) b = Some entry \<Longrightarrow>
     \<not> (button_label entry \<in> Components_Ready w \<and> button_sprite entry \<in> Components_Ready w) \<Longrightarrow>
     processButton env w b = Inr w"
  by (auto simp: processButton_def Let_def)

text \<open>
  Once label and sprite are ready, \<open>processButton\<close> is \<open>processButtonStates\<close> on a
  world that differs in the button's image and in the scene graph only.
\<close>

lemma processButton_go:
  assumes "map_of (buttonLoadQueue w) b = Some entry"
    and "button_label entry \<in> Components_Ready w" "button_sprite entry \<in> Components_Ready w"
  shows "\<exists>w4. processButton env w b = processButtonStates env w4 b \<and>
     Components_Ready w4 = Components_Ready w \<and> buttonLoadQueue w4 = buttonLoadQueue w \<and>
     state w4 = state w \<and> now w4 = now w \<and>
     (case Components_Button w4 b of
        None \<Rightarrow> False
      | Some button \<Rightarrow>
          States button = States (get_or_new (new_Button env) (Components_Button w b)) \<and>
          Layout button = Layout (get_or_new (new_Button env) (Components_Button w b)))"
  unfolding processButton_def Let_def using assms
  apply simp
  apply (intro exI conjI)
       apply (rule refl)
      apply (simp_all add: world_ops Let_def split: option.splits)
  done

lemma processButton_changed:
  assumes "processButton env w b = Inr w'" "w' \<noteq> w"
  obtains entry where "map_of (buttonLoadQueue w) b = Some entry"
    "button_label entry \<in> Components_Ready w" "button_sprite entry \<in> Components_Ready w"
proof (cases "map_of (buttonLoadQueue w) b")
  case None
  with assms processButton_skip(1) [of w b env] show ?thesis by simp
next
  case (Some entry)
  with assms processButton_skip(2) [of w b entry env] that [of entry] show ?thesis by auto
qed

subsection \<open>Buttons become ready after their state sprites\<close>

text \<open>
  C2. When \<open>processButton\<close> adds the Ready marker to a button, or removes the button's
  entry from the load queue, the entities of the five states of the button (Normal,
  Pressed, Toggled, PressedToggled, Disabled) carried the Ready marker before the call;
  and the marker is added and the entry removed together.
\<close>

theorem button_ready_after_states:
  assumes "processButton env w b = Inr w'"
    and "(b \<in> Components_Ready w' \<and> b \<notin> Components_Ready w) \<or>
         (map_of (buttonLoadQueue w') b = None \<and> map_of (buttonLoadQueue w) b \<noteq> None)"
  shows "\<exists>button. Components_Button w' b = Some button \<and>
           Normal (States button) \<in> Components_Ready w \<and>
           Pressed (States button) \<in> Components_Ready w \<and>
           Toggled (States button) \<in> Components_Ready w \<and>
           PressedToggled (States button) \<in> Components_Ready w \<and>
           Disabled (States button) \<in> Components_Ready w \<and>
           b \<in> Components_Ready w' \<and> map_of (buttonLoadQueue w') b = None"
proof -
  from assms have neq: "w' \<noteq> w" by auto
  with assms(1) obtain entry where
    e: "map_of (buttonLoadQueue w) b = Some entry"
       "button_label entry \<in> Components_Ready w" "button_sprite entry \<in> Components_Ready w"
    by (rule processButton_changed)
  from processButton_go [OF e, of env] obtain w4 where
    w4: "processButton env w b = processButtonStates env w4 b"
    and fr: "Components_Ready w4 = Components_Ready w" "buttonLoadQueue w4 = buttonLoadQueue w"
    and ex: "Components_Button w4 b \<noteq> None"
    by (elim exE conjE) (auto split: option.splits)
  from w4 assms(1) have ps: "processButtonStates env w4 b = Inr w'" by simp
  from ex obtain button where bt: "Components_Button w4 b = Some button" by blast
  show ?thesis
  proof (cases "0 < Normal (States button)")
    case True
    with ps bt have "renderButtonStates w4 b = Inr w'"
      by (simp add: processButtonStates_def Let_def)
    from renderButtonStates_ready [OF this] bt fr assms(2) show ?thesis
      by (auto simp: q_delete_def map_of_eq_None_iff split: if_splits)
  next
    case False
    from processButtonStates_construct [OF bt False, of env] ps fr assms(2) show ?thesis
      by auto
  qed
qed

lemma processButton_buttonBuilt:
  "\<exists>w'. processButton env0 buttonBuilt 1 = Inr w' \<and> 1 \<in> Components_Ready w'"
  by (simp add: processButton_def processButtonStates_def renderButtonStates_def Let_def
        world_ops example_defs button_defs q_delete_def)

theorem button_ready_after_states_witness:
  "\<exists>w' button. processButton env0 buttonBuilt 1 = Inr w' \<and>
     1 \<in> Components_Ready w' \<and> 1 \<notin> Components_Ready buttonBuilt \<and>
     Components_Button w' 1 = Some button \<and>
     Normal (States button) \<in> Components_Ready buttonBuilt \<and>
     Pressed (States button) \<in> Components_Ready buttonBuilt \<and>
     Toggled (States button) \<in> Components_Ready buttonBuilt \<and>
     PressedToggled (States button) \<in> Components_Ready buttonBuilt \<and>
     Disabled (States button) \<in> Components_Ready buttonBuilt \<and>
     map_of (buttonLoadQueue w') 1 = None"
proof -
  from processButton_buttonBuilt obtain w' where r: "processButton env0 buttonBuilt 1 = Inr w'"
    and m: "1 \<in> Components_Ready w'" by blast
  have n: "1 \<notin> Components_Ready buttonBuilt"
    by (simp add: example_defs button_defs)
  from button_ready_after_states [OF r] m n r show ?thesis by blast
qed

subsection \<open>Building the states of a button\<close>

text \<open>
  C4. When \<open>processButtonStates\<close> builds the state sprites of a button (its Normal
  state is not set yet), the Normal state becomes the new sprite entity; if the layout's
  disabled frame is the sentinel \<open>isNotSegmented\<close>, the Disabled state is the same
  entity as the Normal state; and if the layout has no image or does not allow frame
  changes, Pressed, Toggled, PressedToggled and Disabled are all the Normal entity.
\<close>

theorem disabled_state_aliases_normal:
  assumes "Components_Button w b = Some button" and "\<not> 0 < Normal (States button)"
  shows "\<exists>w' button'. processButtonStates env w b = Inr w' \<and>
     Components_Button w' b = Some button' \<and>
     Normal (States button') = nextEntity w \<and>
     (DisabledFrame (Layout button) = isNotSegmented \<longrightarrow>
        Disabled (States button') = Normal (States button')) \<and>
     (\<not> HasImage (Layout button) \<or> \<not> AllowFrameChange (Layout button) \<longrightarrow>
        Pressed (States button') = Normal (States button') \<and>
        Toggled (States button') = Normal (States button') \<and>
        PressedToggled (States button') = Normal (States button') \<and>
        Disabled (States button') = Normal (States button'))"
  using processButtonStates_construct [OF assms, of env] by blast

theorem disabled_state_aliases_normal_witness:
  "(\<exists>w' button'. processButtonStates env0 (buttonWorld buttonA) 1 = Inr w' \<and>
      Components_Button w' 1 = Some button' \<and>
      DisabledFrame (Layout buttonA) = isNotSegmented \<and>
      Normal (States button') = 4 \<and> Disabled (States button') = 4) \<and>
   (\<exists>w' button'. processButtonStates env0 (buttonWorld buttonB) 1 = Inr w' \<and>
      Components_Button w' 1 = Some button' \<and>
      AllowFrameChange (Layout buttonB) = False \<and>
      Normal (States button') = 4 \<and> Pressed (States button') = 4 \<and>
      Toggled (States button') = 4 \<and> PressedToggled (States button') = 4 \<and>
      Disabled (States button') = 4)"
proof -
  have a: "Components_Button (buttonWorld buttonA) 1 = Some buttonA"
    "\<not> 0 < Normal (States buttonA)" "DisabledFrame (Layout buttonA) = isNotSegmented"
    "nextEntity (buttonWorld buttonA) = 4"
    by (simp_all add: example_defs button_defs isNotSegmented_def)
  have b: "Components_Button (buttonWorld buttonB) 1 = Some buttonB"
    "\<not> 0 < Normal (States buttonB)" "AllowFrameChange (Layout buttonB) = False"
    "nextEntity (buttonWorld buttonB) = 4"
    by (simp_all add: example_defs button_defs)
  from disabled_state_aliases_normal [OF a(1,2), of env0] a(3,4)
  have "\<exists>w' button'. processButtonStates env0 (buttonWorld buttonA) 1 = Inr w' \<and>
      Components_Button w' 1 = Some button' \<and>
      DisabledFrame (Layout buttonA) = isNotSegmented \<and>
      Normal (States button') = 4 \<and> Disabled (States button') = 4"
    by (elim exE conjE) (intro exI conjI, assumption+, simp_all)
  moreover
  from disabled_state_aliases_normal [OF b(1,2), of env0] b(3,4)
  have "\<exists>w' button'. processButtonStates env0 (buttonWorld buttonB) 1 = Inr w' \<and>
      Components_Button w' 1 = Some button' \<and>
      AllowFrameChange (Layout buttonB) = False \<and>
      Normal (States button') = 4 \<and> Pressed (States button') = 4 \<and>
      Toggled (States button') = 4 \<and> PressedToggled (States button') = 4 \<and>
      Disabled (States button') = 4"
    by (elim exE conjE) (intro exI conjI, assumption+, simp_all)
  ultimately show ?thesis by blast
qed
subsection \<open>What a unit of work leaves alone\<close>

text \<open>No unit of work writes the factory's state or the clock.\<close>

lemma renderButtonStates_frame:
  "renderButtonStates w b = Inr w' \<Longrightarrow> state w' = state w \<and> now w' = now w"
  by (auto simp: renderButtonStates_def Let_def world_ops split: option.splits if_splits)

lemma processButtonStates_frame:
  "processButtonStates env w b = Inr w' \<Longrightarrow> state w' = state w \<and> now w' = now w"
  by (auto simp: processButtonStates_def Let_def world_ops
           dest!: renderButtonStates_frame split: option.splits if_splits)

lemma processButton_frame:
  assumes "processButton env w b = Inr w'"
  shows "state w' = state w \<and> now w' = now w"
proof (cases "w' = w")
  case False
  with assms obtain entry where
    e: "map_of (buttonLoadQueue w) b = Some entry"
       "button_label entry \<in> Components_Ready w" "button_sprite entry \<in> Components_Ready w"
    by (rule processButton_changed)
  from processButton_go [OF e, of env] obtain w4 where
    "processButton env w b = processButtonStates env w4 b" "state w4 = state w" "now w4 = now w"
    by (elim exE conjE)
  with assms have "processButtonStates env w4 b = Inr w'" "state w4 = state w" "now w4 = now w"
    by simp_all
  with processButtonStates_frame [of env w4 b w'] show ?thesis by simp
qed simp

lemma processCheckbox_frame:
  "processCheckbox env w c = Inr w' \<Longrightarrow> state w' = state w \<and> now w' = now w"
  by (auto simp: processCheckbox_def Let_def world_ops split: option.splits if_splits)

lemma updateCheckbox_frame:
  "updateCheckbox env w c = Inr w' \<Longrightarrow> state w' = state w \<and> now w' = now w"
  by (auto simp: updateCheckbox_def Let_def world_ops split: option.splits if_splits)

lemma updateButton_frame:
  "updateButton env w c = Inr w' \<Longrightarrow> state w' = state w \<and> now w' = now w"
  by (auto simp: updateButton_def Let_def world_ops split: option.splits if_splits)

lemma addBitmapFontForLabel_frame:
  "state (addBitmapFontForLabel w l) = state w \<and> now (addBitmapFontForLabel w l) = now w"
  by (auto simp: addBitmapFontForLabel_def createBitmapFont_def Let_def world_ops
           split: option.splits if_splits sum.splits prod.splits)

lemma processLabel_frame:
  "processLabel env w l = Inr w' \<Longrightarrow> state w' = state w \<and> now w' = now w"
  by (auto simp: processLabel_def Let_def world_ops addBitmapFontForLabel_frame
           split: option.splits if_splits)

lemma updateLabel_frame:
  "updateLabel env w l = Inr w' \<Longrightarrow> state w' = state w \<and> now w' = now w"
  by (auto simp: updateLabel_def Let_def world_ops split: option.splits if_splits)

lemma doWork_frame:
  "doWork env u w = Inr w' \<Longrightarrow> state w' = state w \<and> now w' = now w"
  by (cases u)
     (simp_all add: processButton_frame processCheckbox_frame processLabel_frame
        updateButton_frame updateCheckbox_frame updateLabel_frame)

lemma drain_state:
  "drain env start us w = Inr (fl, w') \<Longrightarrow> state w' = state w"
proof (induction us arbitrary: w)
  case Nil
  then show ?case by simp
next
  case (Cons u us)
  show ?case
  proof (cases "now w - start > maxTimePerUpdate env")
    case True
    with Cons.prems show ?thesis by simp
  next
    case False
    with Cons.prems obtain w1 where
      d: "doWork env u w = Inr w1"
      and r: "drain env start us (w1\<lparr>now := now w1 + unitCost env u w\<rparr>) = Inr (fl, w')"
      by (auto split: sum.splits)
    from Cons.IH [OF r] doWork_frame [OF d] show ?thesis by simp
  qed
qed

lemma drain_bound:
  assumes "\<forall>u v. unitCost env u v \<le> B"
  shows "drain env start us w = Inr (fl, w') \<Longrightarrow>
         now w - start \<le> maxTimePerUpdate env + B \<Longrightarrow>
         now w' - start \<le> maxTimePerUpdate env + B"
proof (induction us arbitrary: w)
  case Nil
  then show ?case by simp
next
  case (Cons u us)
  show ?case
  proof (cases "now w - start > maxTimePerUpdate env")
    case True
    with Cons.prems show ?thesis by simp
  next
    case False
    with Cons.prems obtain w1 where
      d: "doWork env u w = Inr w1"
      and r: "drain env start us (w1\<lparr>now := now w1 + unitCost env u w\<rparr>) = Inr (fl, w')"
      by (auto split: sum.splits)
    from doWork_frame [OF d] have n: "now w1 = now w" by simp
    from assms have "unitCost env u w \<le> B" by blast
    with False n have
      "now (w1\<lparr>now := now w1 + unitCost env u w\<rparr>) - start \<le> maxTimePerUpdate env + B"
      by simp
    from Cons.IH [OF r this] show ?thesis .
  qed
qed

lemma drain_over:
  "maxTimePerUpdate env < now w - start \<Longrightarrow>
   drain env start us w = Inr (us \<noteq> [], w)"
  by (cases us) simp_all

lemma loops_state:
  "loops env start ls w = Inr w' \<Longrightarrow> state w' = state w"
proof (induction ls arbitrary: w)
  case Nil
  then show ?case by simp
next
  case (Cons units rest)
  from Cons.prems obtain fl w1 where
    d: "drain env start (units w) w = Inr (fl, w1)"
    by (auto split: sum.splits)
  show ?case
  proof (cases fl)
    case True
    with d Cons.prems drain_state [OF d] show ?thesis by simp
  next
    case False
    with d Cons.prems have "loops env start rest w1 = Inr w'" by simp
    from Cons.IH [OF this] drain_state [OF d] show ?thesis by simp
  qed
qed

lemma loops_bound:
  assumes "\<forall>u v. unitCost env u v \<le> B"
  shows "loops env start ls w = Inr w' \<Longrightarrow>
         now w - start \<le> maxTimePerUpdate env + B \<Longrightarrow>
         now w' - start \<le> maxTimePerUpdate env + B"
proof (induction ls arbitrary: w)
  case Nil
  then show ?case by simp
next
  case (Cons units rest)
  from Cons.prems obtain fl w1 where
    d: "drain env start (units w) w = Inr (fl, w1)"
    by (auto split: sum.splits)
  note b = drain_bound [OF assms d Cons.prems(2)]
  show ?case
  proof (cases fl)
    case True
    with d Cons.prems b show ?thesis by simp
  next
    case False
    with d Cons.prems have "loops env start rest w1 = Inr w'" by simp
    from Cons.IH [OF this b] show ?thesis .
  qed
qed

lemma loops_over:
  "maxTimePerUpdate env < now w - start \<Longrightarrow> loops env start ls w = Inr w"
  by (induction ls) (simp_all add: drain_over split: bool.splits)

lemmas tick_defs =
  Update_def processButton_def processButtonStates_def renderButtonStates_def
  updateButton_def buttonsToUpdate_def checkboxesToUpdate_def labelsToUpdate_def
  Let_def world_ops q_delete_def

lemma Update_buttonBuilt:
  "\<exists>w'. Update env0 buttonBuilt = Inr w' \<and> 1 \<in> Components_Ready w' \<and> now w' = 2000000"
  by (simp add: tick_defs example_defs button_defs)

subsection \<open>The time budget of a tick\<close>

text \<open>
  C6. In a tick the time since the start of the tick is compared with the ceiling
  \<open>maxTimePerUpdate\<close> before every unit of work; when it is above the ceiling, the loop
  returns at once and the rest of the tick processes nothing: the world is returned as it
  is. Hence, if every unit of work takes at most \<open>B\<close> on the clock, a tick that returns
  has taken at most the ceiling plus \<open>B\<close>.
\<close>

theorem tick_time_budget:
  assumes "\<forall>u v. unitCost env u v \<le> B" and "0 \<le> maxTimePerUpdate env + B"
  shows "(Update env w = Inr w' \<longrightarrow> now w' - now w \<le> maxTimePerUpdate env + B) \<and>
         (maxTimePerUpdate env < now v - start \<longrightarrow>
            drain env start (u # us) v = Inr (True, v) \<and> loops env start ls v = Inr v)"
proof (intro conjI impI)
  assume r: "Update env w = Inr w'"
  show "now w' - now w \<le> maxTimePerUpdate env + B"
  proof (cases "state w = SceneStateBooted")
    case False
    with r have "w' = boot w" by (simp add: Update_def)
    then have "now w' = now w" by (simp add: boot_def split: option.splits)
    with assms(2) show ?thesis by simp
  next
    case True
    with r obtain ls where "loops env (now w) ls w = Inr w'"
      by (auto simp: Update_def Let_def simp del: loops.simps)
    from loops_bound [OF assms(1) this] assms(2) show ?thesis by simp
  qed
next
  assume "maxTimePerUpdate env < now v - start"
  then show "drain env start (u # us) v = Inr (True, v)" by simp
next
  assume "maxTimePerUpdate env < now v - start"
  then show "loops env start ls v = Inr v" by (rule loops_over)
qed

theorem tick_time_budget_witness:
  "(\<forall>u v. unitCost env0 u v \<le> 1000000) \<and> 0 \<le> maxTimePerUpdate env0 + 1000000 \<and>
   (\<exists>w'. Update env0 buttonBuilt = Inr w' \<and>
      now w' - now buttonBuilt \<le> maxTimePerUpdate env0 + 1000000) \<and>
   maxTimePerUpdate env0 < now (buttonBuilt\<lparr>now := 17000000\<rparr>) - 0 \<and>
   drain env0 0 [ProcessButton 1] (buttonBuilt\<lparr>now := 17000000\<rparr>) =
     Inr (True, buttonBuilt\<lparr>now := 17000000\<rparr>) \<and>
   loops env0 0 [\<lambda>w. map ProcessButton (map fst (buttonLoadQueue w))]
     (buttonBuilt\<lparr>now := 17000000\<rparr>) = Inr (buttonBuilt\<lparr>now := 17000000\<rparr>)"
proof -
  have c: "\<forall>u v. unitCost env0 u v \<le> 1000000" "0 \<le> maxTimePerUpdate env0 + 1000000"
    by (simp_all add: env0_def)
  have o: "maxTimePerUpdate env0 < now (buttonBuilt\<lparr>now := 17000000\<rparr>) - 0"
    by (simp add: env0_def)
  obtain w' where r: "Update env0 buttonBuilt = Inr w'"
    using Update_buttonBuilt by blast
  from tick_time_budget [OF c, of buttonBuilt w' "buttonBuilt\<lparr>now := 17000000\<rparr>" 0
      "ProcessButton 1" "[]" "[\<lambda>w. map ProcessButton (map fst (buttonLoadQueue w))]"] c o r
  show ?thesis by blast
qed

subsection \<open>Boot\<close>

text \<open>
  C9. A new factory is Uninitialized. While the state is not Booted, \<open>Update\<close> is the
  boot check and nothing else: it returns the world with at most the state changed, and
  the state becomes Booted exactly when the render system exists and has a renderer. Once
  the state is Booted, it stays Booted: through a tick that returns, through every unit
  of work, through another boot check and through the creation of a label.
\<close>

theorem boot_state_machine:
  "state (NewUIWidgetFactory env b l) = SceneStateUninitialized \<and>
   (state w \<noteq> SceneStateBooted \<longrightarrow>
      Update env w = Inr (boot w) \<and>
      boot w = w\<lparr>state := state (boot w)\<rparr> \<and>
      (state (boot w) = SceneStateBooted \<longleftrightarrow>
         (\<exists>rs r. RenderSystem w = Some rs \<and> renderer rs = Some r))) \<and>
   (state w = SceneStateBooted \<longrightarrow>
      (Update env w = Inr w' \<longrightarrow> state w' = SceneStateBooted) \<and>
      (doWork env u w = Inr w' \<longrightarrow> state w' = SceneStateBooted) \<and>
      state (boot w) = SceneStateBooted \<and>
      state (snd (Label env txt font pal w)) = SceneStateBooted)"
proof (intro conjI impI)
  show "state (NewUIWidgetFactory env b l) = SceneStateUninitialized"
    by (simp add: NewUIWidgetFactory_def)
next
  assume "state w \<noteq> SceneStateBooted"
  then show "Update env w = Inr (boot w)" by (simp add: Update_def)
next
  show "boot w = w\<lparr>state := state (boot w)\<rparr>"
    by (simp add: boot_def split: option.splits)
next
  assume "state w \<noteq> SceneStateBooted"
  then show "state (boot w) = SceneStateBooted \<longleftrightarrow>
               (\<exists>rs r. RenderSystem w = Some rs \<and> renderer rs = Some r)"
    by (auto simp: boot_def split: option.splits)
next
  assume "state w = SceneStateBooted" and "Update env w = Inr w'"
  then obtain ls where "loops env (now w) ls w = Inr w'" and "state w = SceneStateBooted"
    by (auto simp: Update_def Let_def simp del: loops.simps)
  with loops_state [of env "now w" ls w w'] show "state w' = SceneStateBooted" by simp
next
  assume "state w = SceneStateBooted" and "doWork env u w = Inr w'"
  with doWork_frame [of env u w w'] show "state w' = SceneStateBooted" by simp
next
  assume "state w = SceneStateBooted"
  then show "state (boot w) = SceneStateBooted"
    by (simp add: boot_def split: option.splits)
next
  assume "state w = SceneStateBooted"
  then show "state (snd (Label env txt font pal w)) = SceneStateBooted"
    by (simp add: Label_def Let_def world_ops)
qed

theorem boot_state_machine_witness:
  "state factory0 \<noteq> SceneStateBooted \<and> Update env0 factory0 = Inr (boot factory0) \<and>
   RenderSystem factory0 = None \<and> state (boot factory0) \<noteq> SceneStateBooted \<and>
   state (factory0\<lparr>RenderSystem := Some \<lparr>renderer = Some 1\<rparr>\<rparr>) \<noteq> SceneStateBooted \<and>
   state (boot (factory0\<lparr>RenderSystem := Some \<lparr>renderer = Some 1\<rparr>\<rparr>)) = SceneStateBooted \<and>
   state buttonBuilt = SceneStateBooted \<and>
   (\<exists>w'. Update env0 buttonBuilt = Inr w' \<and> state w' = SceneStateBooted) \<and>
   (\<exists>w2. doWork env0 (ProcessButton 1) buttonBuilt = Inr w2 \<and> state w2 = SceneStateBooted) \<and>
   state (boot buttonBuilt) = SceneStateBooted \<and>
   state (snd (Label env0 ''Test'' ''F'' ''P'' buttonBuilt)) = SceneStateBooted"
proof -
  have u: "state factory0 \<noteq> SceneStateBooted" "RenderSystem factory0 = None"
    by (simp_all add: example_defs)
  have r: "state (factory0\<lparr>RenderSystem := Some \<lparr>renderer = Some 1\<rparr>\<rparr>) \<noteq> SceneStateBooted"
    "\<exists>rs r. RenderSystem (factory0\<lparr>RenderSystem := Some \<lparr>renderer = Some 1\<rparr>\<rparr>) = Some rs \<and>
            renderer rs = Some r"
    by (simp_all add: example_defs)
  have b: "state buttonBuilt = SceneStateBooted"
    by (simp add: example_defs button_defs)
  obtain w' where t: "Update env0 buttonBuilt = Inr w'"
    using Update_buttonBuilt by blast
  from boot_state_machine [of env0 base0 logger0 factory0] u
  have 1: "Update env0 factory0 = Inr (boot factory0)"
    "state (boot factory0) \<noteq> SceneStateBooted"
    by simp_all
  from boot_state_machine
    [of env0 base0 logger0 "factory0\<lparr>RenderSystem := Some \<lparr>renderer = Some 1\<rparr>\<rparr>"] r
  have 2: "state (boot (factory0\<lparr>RenderSystem := Some \<lparr>renderer = Some 1\<rparr>\<rparr>)) = SceneStateBooted"
    by blast
  from boot_state_machine [of env0 base0 logger0 buttonBuilt w'] b t
  have 3: "state w' = SceneStateBooted" by blast
  from processButton_buttonBuilt obtain w2 where
    p: "doWork env0 (ProcessButton 1) buttonBuilt = Inr w2"
    by auto
  from boot_state_machine
    [of env0 base0 logger0 buttonBuilt w2 "ProcessButton 1" "''Test''" "''F''" "''P''"] b p
  have 4: "state (boot buttonBuilt) = SceneStateBooted"
    "state (snd (Label env0 ''Test'' ''F'' ''P'' buttonBuilt)) = SceneStateBooted"
    "state w2 = SceneStateBooted"
    by blast+
  from p 4(3) have 5: "\<exists>w2. doWork env0 (ProcessButton 1) buttonBuilt = Inr w2 \<and>
      state w2 = SceneStateBooted"
    by blast
  from u r(1) b t 1 2 3 4(1,2) 5 show ?thesis by blast
qed

subsection \<open>The three outcomes of attaching a font\<close>

lemmas label_defs =
  labelCreated_def labelLoaded_def labelHit_def cachedFont_def Label_def q_insert_def

lemma map_of_q_delete:
  "map_of (q_delete k q) k' = (if k' = k then None else map_of q k')"
  by (induction q) (auto simp: q_delete_def)



lemma addBitmapFontForLabel_hit:
  assumes "map_of (labelLoadQueue w) l = Some entry"
    and "Components_File w (table entry) = Some f"
    and "Components_FontTable w (table entry) = Some t"
    and "Components_Sprite w (sprite entry) = Some s"
    and "Retrieve (bitmapFontCache w) (fontCacheKey (Path f) (SpritePath s) (PalettePath s)) =
           Some cached"
  shows "addBitmapFontForLabel w l =
           w\<lparr>Components_BitmapFont := (Components_BitmapFont w)(l \<mapsto> Some cached),
             Components_Ready := insert l (Components_Ready w),
             labelLoadQueue := q_delete l (labelLoadQueue w)\<rparr>"
  using assms by (simp add: addBitmapFontForLabel_def Let_def Ready_Add_def)

lemma addBitmapFontForLabel_stored:
  assumes "map_of (labelLoadQueue w) l = Some entry"
    and "Components_File w (table entry) = Some f"
    and "Components_FontTable w (table entry) = Some t" and "Data t = Some d"
    and "Components_Sprite w (sprite entry) = Some s" and "Sprite s = Some so"
    and "Retrieve (bitmapFontCache w) (fontCacheKey (Path f) (SpritePath s) (PalettePath s)) =
           None"
    and "\<not> budget (bitmapFontCache w) < weight (bitmapFontCache w) + 1"
  shows "addBitmapFontForLabel w l =
           w\<lparr>Components_BitmapFont :=
               (Components_BitmapFont w)
                 (l \<mapsto> Some \<lparr>fontId = length (fontsBuilt w), fontSprite = so, fontTable = d,
                              fontColor = White\<rparr>),
             bitmapFontCache :=
               (bitmapFontCache w)
                 \<lparr>stored :=
                    (fontCacheKey (Path f) (SpritePath s) (PalettePath s),
                     \<lparr>fontId = length (fontsBuilt w), fontSprite = so, fontTable = d,
                      fontColor = White\<rparr>) # stored (bitmapFontCache w),
                  weight := weight (bitmapFontCache w) + 1\<rparr>,
             fontsBuilt :=
               fontsBuilt w @
                 [\<lparr>fontId = length (fontsBuilt w), fontSprite = so, fontTable = d,
                   fontColor = White\<rparr>]\<rparr>"
  using assms
  by (simp add: addBitmapFontForLabel_def createBitmapFont_def d2bitmapfont_New_def
        Insert_def Let_def)

lemma addBitmapFontForLabel_rejected:
  assumes "map_of (labelLoadQueue w) l = Some entry"
    and "Components_File w (table entry) = Some f"
    and "Components_FontTable w (table entry) = Some t" and "Data t = Some d"
    and "Components_Sprite w (sprite entry) = Some s" and "Sprite s = Some so"
    and "Retrieve (bitmapFontCache w) (fontCacheKey (Path f) (SpritePath s) (PalettePath s)) =
           None"
    and "Insert (bitmapFontCache w) (fontCacheKey (Path f) (SpritePath s) (PalettePath s))
           \<lparr>fontId = length (fontsBuilt w), fontSprite = so, fontTable = d, fontColor = White\<rparr>
           1 = Inl err"
  shows "addBitmapFontForLabel w l =
           w\<lparr>Components_BitmapFont :=
               (Components_BitmapFont w)
                 (l \<mapsto> Some \<lparr>fontId = length (fontsBuilt w), fontSprite = so, fontTable = d,
                              fontColor = White\<rparr>),
             logger := Warning err (logger w),
             fontsBuilt :=
               fontsBuilt w @
                 [\<lparr>fontId = length (fontsBuilt w), fontSprite = so, fontTable = d,
                   fontColor = White\<rparr>]\<rparr>"
  using assms
  by (simp add: addBitmapFontForLabel_def createBitmapFont_def d2bitmapfont_New_def Let_def)

subsection \<open>A rejected insert\<close>

text \<open>
  C8. When the cache rejects the insert of the font built for a label, \<open>processLabel\<close>
  returns without a panic, the error is handed to \<open>Warning\<close> (a print at the warning
  level is scheduled and the process does not exit), the cache is unchanged, and the new
  font is attached to the label's BitmapFont component.
\<close>

theorem rejected_insert_is_warning:
  assumes "Components_BitmapFont w l = None"
    and "map_of (labelLoadQueue w) l = Some entry"
    and "Components_File w (table entry) = Some f"
    and "Components_FontTable w (table entry) = Some t" and "Data t = Some d"
    and "Components_Sprite w (sprite entry) = Some s" and "Sprite s = Some so"
    and "Retrieve (bitmapFontCache w) (fontCacheKey (Path f) (SpritePath s) (PalettePath s)) =
           None"
    and "Insert (bitmapFontCache w) (fontCacheKey (Path f) (SpritePath s) (PalettePath s))
           \<lparr>fontId = length (fontsBuilt w), fontSprite = so, fontTable = d, fontColor = White\<rparr>
           1 = Inl err"
  shows "\<exists>w'. processLabel env w l = Inr w' \<and>
           Components_BitmapFont w' l =
             Some (Some \<lparr>fontId = length (fontsBuilt w), fontSprite = so, fontTable = d,
                         fontColor = White\<rparr>) \<and>
           scheduled (logger w') = scheduled (logger w) @ [(LogLevelWarning, err)] \<and>
           exited (logger w') = exited (logger w) \<and>
           bitmapFontCache w' = bitmapFontCache w"
proof -
  from assms(1) have "processLabel env w l = Inr (addBitmapFontForLabel w l)"
    by (simp add: processLabel_def)
  then show ?thesis
    by (simp add: addBitmapFontForLabel_rejected [OF assms(2-9)] Warning_def)
qed

lemma fullCache_miss: "Retrieve fullCache ''F.tbl::F.dc6::P'' = None"
  by (auto simp: Retrieve_def fullCache_def fontCacheKey_def map_of_eq_None_iff)

lemmas two_defs = twoLabels_def twoLabelsFull_def labelCreated_def Label_def q_insert_def

lemma twoLabelsFull_1:
  "map_of (labelLoadQueue twoLabelsFull) 1 = Some \<lparr>table = 2, sprite = 3\<rparr>"
  "Components_BitmapFont twoLabelsFull 1 = None"
  "Components_File twoLabelsFull 2 = Some \<lparr>Path = ''F.tbl''\<rparr>"
  "Components_FontTable twoLabelsFull 2 = Some \<lparr>Data = Some [1, 2, 3]\<rparr>"
  "Components_Sprite twoLabelsFull 3 =
     Some \<lparr>Sprite = Some 10, SpritePath = ''F.dc6'', PalettePath = ''P''\<rparr>"
  "bitmapFontCache twoLabelsFull = fullCache"
  "length (fontsBuilt twoLabelsFull) = 64"
  by (simp_all add: two_defs example_defs world_ops)

theorem rejected_insert_is_warning_witness:
  "Retrieve (bitmapFontCache twoLabelsFull) ''F.tbl::F.dc6::P'' = None \<and>
   Insert (bitmapFontCache twoLabelsFull) ''F.tbl::F.dc6::P''
     \<lparr>fontId = 64, fontSprite = 10, fontTable = [1, 2, 3], fontColor = White\<rparr> 1 =
     Inl ''budget exceeded'' \<and>
   (\<exists>w'. processLabel env0 twoLabelsFull 1 = Inr w' \<and>
      Components_BitmapFont w' 1 =
        Some (Some \<lparr>fontId = 64, fontSprite = 10, fontTable = [1, 2, 3], fontColor = White\<rparr>) \<and>
      scheduled (logger w') =
        scheduled (logger twoLabelsFull) @ [(LogLevelWarning, ''budget exceeded'')] \<and>
      exited (logger w') = exited (logger twoLabelsFull) \<and>
      bitmapFontCache w' = bitmapFontCache twoLabelsFull)"
proof -
  let ?e = "\<lparr>table = 2, sprite = 3\<rparr>"
  let ?f = "\<lparr>Path = ''F.tbl''\<rparr>"
  let ?t = "\<lparr>Data = Some [1, 2, 3]\<rparr>"
  let ?s = "\<lparr>Sprite = Some 10, SpritePath = ''F.dc6'', PalettePath = ''P''\<rparr>"
  have k: "fontCacheKey (Path ?f) (SpritePath ?s) (PalettePath ?s) = ''F.tbl::F.dc6::P''"
    by (simp add: fontCacheKey_def)
  have m: "Retrieve (bitmapFontCache twoLabelsFull) ''F.tbl::F.dc6::P'' = None"
    by (simp add: twoLabelsFull_1 fullCache_miss)
  have i: "Insert (bitmapFontCache twoLabelsFull) ''F.tbl::F.dc6::P''
     \<lparr>fontId = 64, fontSprite = 10, fontTable = [1, 2, 3], fontColor = White\<rparr> 1 =
     Inl ''budget exceeded''"
    by (simp add: twoLabelsFull_1 Insert_def fullCache_def fontCacheBudget_def env0_def)
  have p: "Components_BitmapFont twoLabelsFull 1 = None"
    "map_of (labelLoadQueue twoLabelsFull) 1 = Some ?e"
    "Components_File twoLabelsFull (table ?e) = Some ?f"
    "Components_FontTable twoLabelsFull (table ?e) = Some ?t" "Data ?t = Some [1, 2, 3]"
    "Components_Sprite twoLabelsFull (sprite ?e) = Some ?s" "Sprite ?s = Some 10"
    by (simp_all add: twoLabelsFull_1 del: One_nat_def)
  have m': "Retrieve (bitmapFontCache twoLabelsFull)
      (fontCacheKey (Path ?f) (SpritePath ?s) (PalettePath ?s)) = None"
    using m k by simp
  have i': "Insert (bitmapFontCache twoLabelsFull)
      (fontCacheKey (Path ?f) (SpritePath ?s) (PalettePath ?s))
      \<lparr>fontId = length (fontsBuilt twoLabelsFull), fontSprite = 10, fontTable = [1, 2, 3],
       fontColor = White\<rparr> 1 = Inl ''budget exceeded''"
    using i k by (simp add: twoLabelsFull_1)
  from rejected_insert_is_warning [OF p m' i', of env0] obtain w' where
    "processLabel env0 twoLabelsFull 1 = Inr w'"
    "Components_BitmapFont w' 1 =
       Some (Some \<lparr>fontId = length (fontsBuilt twoLabelsFull), fontSprite = 10,
                   fontTable = [1, 2, 3], fontColor = White\<rparr>)"
    "scheduled (logger w') =
       scheduled (logger twoLabelsFull) @ [(LogLevelWarning, ''budget exceeded'')]"
    "exited (logger w') = exited (logger twoLabelsFull)"
    "bitmapFontCache w' = bitmapFontCache twoLabelsFull"
    by blast
  with m i show ?thesis by (simp add: twoLabelsFull_1(7))
qed

subsection \<open>Sharing a font through the cache\<close>

text \<open>
  C3, as the code has it. Two labels ask for the same glyph-table path, sprite path and
  palette path, neither has a font yet, and the cache does not hold their key. If the
  cache has room for one more font, then after \<open>processLabel\<close> on the first and on the
  second both BitmapFont components hold the same font object, and this object is the
  only one that was built.
\<close>

theorem same_triple_shares_font:
  assumes "a \<noteq> b"
    and "Components_BitmapFont w a = None" and "Components_BitmapFont w b = None"
    and "map_of (labelLoadQueue w) a = Some ea" and "map_of (labelLoadQueue w) b = Some eb"
    and "Components_File w (table ea) = Some fa" and "Components_File w (table eb) = Some fb"
    and "Components_FontTable w (table ea) = Some ta" and "Data ta = Some d"
    and "Components_FontTable w (table eb) = Some tb"
    and "Components_Sprite w (sprite ea) = Some sa" and "Sprite sa = Some so"
    and "Components_Sprite w (sprite eb) = Some sb"
    and "Path fa = Path fb" and "SpritePath sa = SpritePath sb"
    and "PalettePath sa = PalettePath sb"
    and "Retrieve (bitmapFontCache w) (fontCacheKey (Path fa) (SpritePath sa) (PalettePath sa)) =
           None"
    and "weight (bitmapFontCache w) + 1 \<le> budget (bitmapFontCache w)"
  shows "\<exists>w1 w2 bmf. processLabel env w a = Inr w1 \<and> processLabel env w1 b = Inr w2 \<and>
           Components_BitmapFont w2 a = Some (Some bmf) \<and>
           Components_BitmapFont w2 b = Some (Some bmf) \<and>
           fontsBuilt w2 = fontsBuilt w @ [bmf]"
proof -
  let ?key = "fontCacheKey (Path fa) (SpritePath sa) (PalettePath sa)"
  let ?bmf = "\<lparr>fontId = length (fontsBuilt w), fontSprite = so, fontTable = d,
               fontColor = White\<rparr>"
  let ?w1 = "addBitmapFontForLabel w a"
  from assms(18) have room: "\<not> budget (bitmapFontCache w) < weight (bitmapFontCache w) + 1"
    by simp
  note w1 = addBitmapFontForLabel_stored
    [OF assms(4) assms(6) assms(8) assms(9) assms(11) assms(12) assms(17) room]
  from assms(2) have s1: "processLabel env w a = Inr ?w1"
    by (simp add: processLabel_def)
  have b1: "Components_BitmapFont ?w1 b = None"
    using assms(1,3) by (simp add: w1)
  have q1: "map_of (labelLoadQueue ?w1) b = Some eb"
    "Components_File ?w1 (table eb) = Some fb"
    "Components_FontTable ?w1 (table eb) = Some tb"
    "Components_Sprite ?w1 (sprite eb) = Some sb"
    using assms(5,7,10,13) by (simp_all add: w1)
  have h1: "Retrieve (bitmapFontCache ?w1)
              (fontCacheKey (Path fb) (SpritePath sb) (PalettePath sb)) = Some ?bmf"
    using assms(14-16) by (simp add: w1 Retrieve_def)
  note w2 = addBitmapFontForLabel_hit [OF q1 h1]
  from b1 have s2: "processLabel env ?w1 b = Inr (addBitmapFontForLabel ?w1 b)"
    by (simp add: processLabel_def)
  have "Components_BitmapFont (addBitmapFontForLabel ?w1 b) a = Some (Some ?bmf)"
    using assms(1) by (simp add: w2) (simp add: w1)
  moreover have "Components_BitmapFont (addBitmapFontForLabel ?w1 b) b = Some (Some ?bmf)"
    by (simp add: w2)
  moreover have "fontsBuilt (addBitmapFontForLabel ?w1 b) = fontsBuilt w @ [?bmf]"
    by (simp add: w2) (simp add: w1)
  ultimately show ?thesis using s1 s2 by blast
qed

lemma twoLabels_facts:
  "map_of (labelLoadQueue twoLabels) 1 = Some \<lparr>table = 2, sprite = 3\<rparr>"
  "map_of (labelLoadQueue twoLabels) 4 = Some \<lparr>table = 5, sprite = 6\<rparr>"
  "Components_BitmapFont twoLabels 1 = None"
  "Components_BitmapFont twoLabels 4 = None"
  "Components_File twoLabels 2 = Some \<lparr>Path = ''F.tbl''\<rparr>"
  "Components_File twoLabels 5 = Some \<lparr>Path = ''F.tbl''\<rparr>"
  "Components_FontTable twoLabels 2 = Some \<lparr>Data = Some [1, 2, 3]\<rparr>"
  "Components_FontTable twoLabels 5 = Some \<lparr>Data = Some [1, 2, 3]\<rparr>"
  "Components_Sprite twoLabels 3 =
     Some \<lparr>Sprite = Some 10, SpritePath = ''F.dc6'', PalettePath = ''P''\<rparr>"
  "Components_Sprite twoLabels 6 =
     Some \<lparr>Sprite = Some 12, SpritePath = ''F.dc6'', PalettePath = ''P''\<rparr>"
  "bitmapFontCache twoLabels = CreateCache fontCacheBudget ''budget exceeded''"
  "fontsBuilt twoLabels = []"
  by (simp_all add: two_defs example_defs world_ops)

theorem same_triple_shares_font_witness:
  "\<exists>w1 w2 bmf. processLabel env0 twoLabels 1 = Inr w1 \<and> processLabel env0 w1 4 = Inr w2 \<and>
     Components_BitmapFont w2 1 = Some (Some bmf) \<and>
     Components_BitmapFont w2 4 = Some (Some bmf) \<and>
     fontsBuilt w2 = fontsBuilt twoLabels @ [bmf]"
proof -
  let ?ea = "\<lparr>table = 2, sprite = 3\<rparr>"
  let ?eb = "\<lparr>table = 5, sprite = 6\<rparr>"
  let ?f = "\<lparr>Path = ''F.tbl''\<rparr>"
  let ?t = "\<lparr>Data = Some [1, 2, 3]\<rparr>"
  let ?sa = "\<lparr>Sprite = Some 10, SpritePath = ''F.dc6'', PalettePath = ''P''\<rparr>"
  let ?sb = "\<lparr>Sprite = Some 12, SpritePath = ''F.dc6'', PalettePath = ''P''\<rparr>"
  have p: "(1::nat) \<noteq> 4"
    "Components_BitmapFont twoLabels 1 = None" "Components_BitmapFont twoLabels 4 = None"
    "map_of (labelLoadQueue twoLabels) 1 = Some ?ea"
    "map_of (labelLoadQueue twoLabels) 4 = Some ?eb"
    "Components_File twoLabels (table ?ea) = Some ?f"
    "Components_File twoLabels (table ?eb) = Some ?f"
    "Components_FontTable twoLabels (table ?ea) = Some ?t" "Data ?t = Some [1, 2, 3]"
    "Components_FontTable twoLabels (table ?eb) = Some ?t"
    "Components_Sprite twoLabels (sprite ?ea) = Some ?sa" "Sprite ?sa = Some 10"
    "Components_Sprite twoLabels (sprite ?eb) = Some ?sb"
    "Path ?f = Path ?f" "SpritePath ?sa = SpritePath ?sb" "PalettePath ?sa = PalettePath ?sb"
    "Retrieve (bitmapFontCache twoLabels)
       (fontCacheKey (Path ?f) (SpritePath ?sa) (PalettePath ?sa)) = None"
    "weight (bitmapFontCache twoLabels) + 1 \<le> budget (bitmapFontCache twoLabels)"
    by (simp_all add: twoLabels_facts Retrieve_def CreateCache_def fontCacheBudget_def
          del: One_nat_def)
  from same_triple_shares_font [OF p, of env0] show ?thesis .
qed

lemma twoLabelsFull_4:
  "map_of (labelLoadQueue twoLabelsFull) 4 = Some \<lparr>table = 5, sprite = 6\<rparr>"
  "Components_BitmapFont twoLabelsFull 4 = None"
  "Components_File twoLabelsFull 5 = Some \<lparr>Path = ''F.tbl''\<rparr>"
  "Components_FontTable twoLabelsFull 5 = Some \<lparr>Data = Some [1, 2, 3]\<rparr>"
  "Components_Sprite twoLabelsFull 6 =
     Some \<lparr>Sprite = Some 12, SpritePath = ''F.dc6'', PalettePath = ''P''\<rparr>"
  by (simp_all add: twoLabelsFull_def twoLabels_facts)

lemma fullCache_rejects: "Insert fullCache key v 1 = Inl ''budget exceeded''"
  by (simp add: Insert_def fullCache_def fontCacheBudget_def env0_def)

lemma twoLabelsFull_first:
  "addBitmapFontForLabel twoLabelsFull 1 =
     twoLabelsFull
       \<lparr>Components_BitmapFont :=
          (Components_BitmapFont twoLabelsFull)
            (1 \<mapsto> Some \<lparr>fontId = 64, fontSprite = 10, fontTable = [1, 2, 3],
                         fontColor = White\<rparr>),
        logger := Warning ''budget exceeded'' (logger twoLabelsFull),
        fontsBuilt :=
          fontsBuilt twoLabelsFull @
            [\<lparr>fontId = 64, fontSprite = 10, fontTable = [1, 2, 3], fontColor = White\<rparr>]\<rparr>"
  using addBitmapFontForLabel_rejected
    [of twoLabelsFull 1 "\<lparr>table = 2, sprite = 3\<rparr>" "\<lparr>Path = ''F.tbl''\<rparr>"
        "\<lparr>Data = Some [1, 2, 3]\<rparr>" "[1, 2, 3]"
        "\<lparr>Sprite = Some 10, SpritePath = ''F.dc6'', PalettePath = ''P''\<rparr>" 10
        "''budget exceeded''"]
  by (simp add: twoLabelsFull_1 fullCache_miss fullCache_rejects fontCacheKey_def
        del: One_nat_def)

lemma twoLabelsFull_second:
  "addBitmapFontForLabel (addBitmapFontForLabel twoLabelsFull 1) 4 =
     (addBitmapFontForLabel twoLabelsFull 1)
       \<lparr>Components_BitmapFont :=
          (Components_BitmapFont (addBitmapFontForLabel twoLabelsFull 1))
            (4 \<mapsto> Some \<lparr>fontId = 65, fontSprite = 12, fontTable = [1, 2, 3],
                         fontColor = White\<rparr>),
        logger := Warning ''budget exceeded'' (logger (addBitmapFontForLabel twoLabelsFull 1)),
        fontsBuilt :=
          fontsBuilt (addBitmapFontForLabel twoLabelsFull 1) @
            [\<lparr>fontId = 65, fontSprite = 12, fontTable = [1, 2, 3], fontColor = White\<rparr>]\<rparr>"
  using addBitmapFontForLabel_rejected
    [of "addBitmapFontForLabel twoLabelsFull 1" 4 "\<lparr>table = 5, sprite = 6\<rparr>"
        "\<lparr>Path = ''F.tbl''\<rparr>" "\<lparr>Data = Some [1, 2, 3]\<rparr>" "[1, 2, 3]"
        "\<lparr>Sprite = Some 12, SpritePath = ''F.dc6'', PalettePath = ''P''\<rparr>" 12
        "''budget exceeded''"]
  by (simp add: twoLabelsFull_first twoLabelsFull_1 twoLabelsFull_4 fullCache_miss
        fullCache_rejects fontCacheKey_def del: One_nat_def)

text \<open>
  C3 as stated fails when the cache is full: the two labels below ask for the same three
  paths, and each gets a font object of its own, so two fonts are built for one triple.
\<close>

theorem same_triple_two_fonts_counterexample:
  "Components_File twoLabelsFull 2 = Components_File twoLabelsFull 5 \<and>
   map_option SpritePath (Components_Sprite twoLabelsFull 3) =
     map_option SpritePath (Components_Sprite twoLabelsFull 6) \<and>
   map_option PalettePath (Components_Sprite twoLabelsFull 3) =
     map_option PalettePath (Components_Sprite twoLabelsFull 6) \<and>
   processLabel env0 twoLabelsFull 1 = Inr (addBitmapFontForLabel twoLabelsFull 1) \<and>
   processLabel env0 (addBitmapFontForLabel twoLabelsFull 1) 4 =
     Inr (addBitmapFontForLabel (addBitmapFontForLabel twoLabelsFull 1) 4) \<and>
   Components_BitmapFont (addBitmapFontForLabel (addBitmapFontForLabel twoLabelsFull 1) 4) 1 =
     Some (Some \<lparr>fontId = 64, fontSprite = 10, fontTable = [1, 2, 3], fontColor = White\<rparr>) \<and>
   Components_BitmapFont (addBitmapFontForLabel (addBitmapFontForLabel twoLabelsFull 1) 4) 4 =
     Some (Some \<lparr>fontId = 65, fontSprite = 12, fontTable = [1, 2, 3], fontColor = White\<rparr>) \<and>
   length (fontsBuilt (addBitmapFontForLabel (addBitmapFontForLabel twoLabelsFull 1) 4)) =
     length (fontsBuilt twoLabelsFull) + 2"
proof -
  have same: "Components_File twoLabelsFull 2 = Components_File twoLabelsFull 5"
    "map_option SpritePath (Components_Sprite twoLabelsFull 3) =
       map_option SpritePath (Components_Sprite twoLabelsFull 6)"
    "map_option PalettePath (Components_Sprite twoLabelsFull 3) =
       map_option PalettePath (Components_Sprite twoLabelsFull 6)"
    by (simp_all add: twoLabelsFull_1 twoLabelsFull_4)
  have s1: "processLabel env0 twoLabelsFull 1 = Inr (addBitmapFontForLabel twoLabelsFull 1)"
    by (simp add: processLabel_def twoLabelsFull_1 del: One_nat_def)
  have "Components_BitmapFont (addBitmapFontForLabel twoLabelsFull 1) 4 = None"
    by (simp add: twoLabelsFull_first twoLabelsFull_4 del: One_nat_def)
  then have s2: "processLabel env0 (addBitmapFontForLabel twoLabelsFull 1) 4 =
      Inr (addBitmapFontForLabel (addBitmapFontForLabel twoLabelsFull 1) 4)"
    by (simp add: processLabel_def)
  have f1: "Components_BitmapFont
        (addBitmapFontForLabel (addBitmapFontForLabel twoLabelsFull 1) 4) 1 =
      Some (Some \<lparr>fontId = 64, fontSprite = 10, fontTable = [1, 2, 3], fontColor = White\<rparr>)"
    by (subst twoLabelsFull_second) (simp add: twoLabelsFull_first del: One_nat_def)
  have f4: "Components_BitmapFont
        (addBitmapFontForLabel (addBitmapFontForLabel twoLabelsFull 1) 4) 4 =
      Some (Some \<lparr>fontId = 65, fontSprite = 12, fontTable = [1, 2, 3], fontColor = White\<rparr>)"
    by (subst twoLabelsFull_second) simp
  have n: "length (fontsBuilt (addBitmapFontForLabel (addBitmapFontForLabel twoLabelsFull 1) 4)) =
      length (fontsBuilt twoLabelsFull) + 2"
    by (subst twoLabelsFull_second) (simp add: twoLabelsFull_first twoLabelsFull_1 del: One_nat_def)
  from same s1 s2 f1 f4 n show ?thesis by blast
qed

subsection \<open>When a label becomes ready\<close>

lemma labelLoaded_facts:
  "map_of (labelLoadQueue labelLoaded) 1 = Some \<lparr>table = 2, sprite = 3\<rparr>"
  "Components_BitmapFont labelLoaded 1 = None"
  "Components_File labelLoaded 2 = Some \<lparr>Path = ''F.tbl''\<rparr>"
  "Components_FontTable labelLoaded 2 = Some \<lparr>Data = Some [1, 2, 3]\<rparr>"
  "Components_Sprite labelLoaded 3 =
     Some \<lparr>Sprite = Some 10, SpritePath = ''F.dc6'', PalettePath = ''P''\<rparr>"
  "bitmapFontCache labelLoaded = CreateCache fontCacheBudget ''budget exceeded''"
  "fontsBuilt labelLoaded = []"
  "Components_Ready labelLoaded = {}"
  "RenderSystem labelLoaded = Some \<lparr>renderer = Some 1\<rparr>"
  "entities labelLoaded = [1, 2, 3]"
  "boundRenderer labelLoaded = Map.empty"
  by (simp_all add: label_defs example_defs world_ops)

lemma labelLoaded_first:
  "addBitmapFontForLabel labelLoaded 1 =
     labelLoaded
       \<lparr>Components_BitmapFont :=
          (Components_BitmapFont labelLoaded)
            (1 \<mapsto> Some \<lparr>fontId = 0, fontSprite = 10, fontTable = [1, 2, 3],
                         fontColor = White\<rparr>),
        bitmapFontCache :=
          (bitmapFontCache labelLoaded)
            \<lparr>stored :=
               [(''F.tbl::F.dc6::P'',
                 \<lparr>fontId = 0, fontSprite = 10, fontTable = [1, 2, 3], fontColor = White\<rparr>)],
             weight := 1\<rparr>,
        fontsBuilt :=
          [\<lparr>fontId = 0, fontSprite = 10, fontTable = [1, 2, 3], fontColor = White\<rparr>]\<rparr>"
  using addBitmapFontForLabel_stored
    [of labelLoaded 1 "\<lparr>table = 2, sprite = 3\<rparr>" "\<lparr>Path = ''F.tbl''\<rparr>"
        "\<lparr>Data = Some [1, 2, 3]\<rparr>" "[1, 2, 3]"
        "\<lparr>Sprite = Some 10, SpritePath = ''F.dc6'', PalettePath = ''P''\<rparr>" 10]
  by (simp add: labelLoaded_facts fontCacheKey_def Retrieve_def CreateCache_def
        fontCacheBudget_def del: One_nat_def)

lemma labelLoaded_second:
  "\<exists>w'. processLabel env0 (addBitmapFontForLabel labelLoaded 1) 1 = Inr w' \<and>
     Components_Ready w' = {1} \<and> entities w' = [1, 3] \<and>
     map_of (labelLoadQueue w') 1 = None \<and>
     boundRenderer w' 10 = Some (Some 1)"
  by (subst labelLoaded_first)
     (simp add: processLabel_def Let_def world_ops labelLoadQueue_index_def map_of_q_delete
        labelLoaded_facts del: One_nat_def)

text \<open>
  C1 as stated fails: the label below becomes ready in two calls of \<open>processLabel\<close>
  while neither its glyph-table entity 2 nor its sprite entity 3 ever carries the Ready
  marker.
\<close>

theorem label_ready_without_ready_prerequisites_counterexample:
  "map_of (labelLoadQueue labelLoaded) 1 = Some \<lparr>table = 2, sprite = 3\<rparr> \<and>
   1 \<notin> Components_Ready labelLoaded \<and>
   2 \<notin> Components_Ready labelLoaded \<and> 3 \<notin> Components_Ready labelLoaded \<and>
   processLabel env0 labelLoaded 1 = Inr (addBitmapFontForLabel labelLoaded 1) \<and>
   2 \<notin> Components_Ready (addBitmapFontForLabel labelLoaded 1) \<and>
   3 \<notin> Components_Ready (addBitmapFontForLabel labelLoaded 1) \<and>
   \<not> isl (processLabel env0 (addBitmapFontForLabel labelLoaded 1) 1) \<and>
   1 \<in> Components_Ready (projr (processLabel env0 (addBitmapFontForLabel labelLoaded 1) 1)) \<and>
   2 \<notin> Components_Ready (projr (processLabel env0 (addBitmapFontForLabel labelLoaded 1) 1)) \<and>
   3 \<notin> Components_Ready (projr (processLabel env0 (addBitmapFontForLabel labelLoaded 1) 1))"
proof -
  have a: "map_of (labelLoadQueue labelLoaded) 1 = Some \<lparr>table = 2, sprite = 3\<rparr>"
    "1 \<notin> Components_Ready labelLoaded"
    "2 \<notin> Components_Ready labelLoaded" "3 \<notin> Components_Ready labelLoaded"
    by (simp_all add: labelLoaded_facts del: One_nat_def)
  have b: "processLabel env0 labelLoaded 1 = Inr (addBitmapFontForLabel labelLoaded 1)"
    by (simp add: processLabel_def labelLoaded_facts del: One_nat_def)
  have c: "2 \<notin> Components_Ready (addBitmapFontForLabel labelLoaded 1)"
    "3 \<notin> Components_Ready (addBitmapFontForLabel labelLoaded 1)"
    by (simp_all add: labelLoaded_first labelLoaded_facts del: One_nat_def)
  from labelLoaded_second obtain w' where
    r: "processLabel env0 (addBitmapFontForLabel labelLoaded 1) 1 = Inr w'"
       "Components_Ready w' = {1}"
    by blast
  have d: "\<not> isl (processLabel env0 (addBitmapFontForLabel labelLoaded 1) 1)"
    "1 \<in> Components_Ready (projr (processLabel env0 (addBitmapFontForLabel labelLoaded 1) 1))"
    "2 \<notin> Components_Ready (projr (processLabel env0 (addBitmapFontForLabel labelLoaded 1) 1))"
    "3 \<notin> Components_Ready (projr (processLabel env0 (addBitmapFontForLabel labelLoaded 1) 1))"
    unfolding r(1) by (simp_all add: r(2))
  from a b c d show ?thesis by blast
qed

text \<open>
  C1, as the code has it. A label without a BitmapFont component gets one, or gets the
  Ready marker, from \<open>processLabel\<close> only if it has an entry in the load queue whose
  glyph-table entity carries a File and a FontTable component and whose sprite entity
  carries a Sprite component; the Ready markers of these entities are not read. A label
  that has a BitmapFont component gets the Ready marker from \<open>processLabel\<close> whenever
  the render system is there.
\<close>

theorem label_ready_after_components:
  "(Components_BitmapFont w l = None \<longrightarrow> processLabel env w l = Inr w' \<longrightarrow>
      (l \<in> Components_Ready w' \<and> l \<notin> Components_Ready w) \<or> Components_BitmapFont w' l \<noteq> None \<longrightarrow>
      (\<exists>entry. map_of (labelLoadQueue w) l = Some entry \<and>
         Components_File w (table entry) \<noteq> None \<and>
         Components_FontTable w (table entry) \<noteq> None \<and>
         Components_Sprite w (sprite entry) \<noteq> None)) \<and>
   (Components_BitmapFont w l = Some (Some bmf) \<longrightarrow> RenderSystem w = Some rs \<longrightarrow>
      (\<exists>w'. processLabel env w l = Inr w' \<and> l \<in> Components_Ready w'))"
proof (intro conjI impI)
  assume n: "Components_BitmapFont w l = None" and r: "processLabel env w l = Inr w'"
    and c: "(l \<in> Components_Ready w' \<and> l \<notin> Components_Ready w) \<or>
            Components_BitmapFont w' l \<noteq> None"
  from n r have w': "w' = addBitmapFontForLabel w l" by (simp add: processLabel_def)
  show "\<exists>entry. map_of (labelLoadQueue w) l = Some entry \<and>
         Components_File w (table entry) \<noteq> None \<and>
         Components_FontTable w (table entry) \<noteq> None \<and>
         Components_Sprite w (sprite entry) \<noteq> None"
  proof (cases "map_of (labelLoadQueue w) l")
    case None
    with w' have "w' = w" by (simp add: addBitmapFontForLabel_def)
    with c n show ?thesis by simp
  next
    case (Some entry)
    show ?thesis
    proof (cases "Components_File w (table entry) \<noteq> None \<and>
                  Components_FontTable w (table entry) \<noteq> None \<and>
                  Components_Sprite w (sprite entry) \<noteq> None")
      case True
      with Some show ?thesis by simp
    next
      case False
      with w' Some have "w' = w"
        by (auto simp: addBitmapFontForLabel_def split: option.splits)
      with c n show ?thesis by simp
    qed
  qed
next
  assume "Components_BitmapFont w l = Some (Some bmf)" and "RenderSystem w = Some rs"
  then show "\<exists>w'. processLabel env w l = Inr w' \<and> l \<in> Components_Ready w'"
    by (simp add: processLabel_def Let_def Ready_Add_def)
qed

theorem label_ready_after_components_witness:
  "Components_BitmapFont labelLoaded 1 = None \<and>
   processLabel env0 labelLoaded 1 = Inr (addBitmapFontForLabel labelLoaded 1) \<and>
   Components_BitmapFont (addBitmapFontForLabel labelLoaded 1) 1 =
     Some (Some \<lparr>fontId = 0, fontSprite = 10, fontTable = [1, 2, 3], fontColor = White\<rparr>) \<and>
   RenderSystem (addBitmapFontForLabel labelLoaded 1) = Some \<lparr>renderer = Some 1\<rparr> \<and>
   (\<exists>entry. map_of (labelLoadQueue labelLoaded) 1 = Some entry \<and>
      Components_File labelLoaded (table entry) \<noteq> None \<and>
      Components_FontTable labelLoaded (table entry) \<noteq> None \<and>
      Components_Sprite labelLoaded (sprite entry) \<noteq> None) \<and>
   (\<exists>w'. processLabel env0 (addBitmapFontForLabel labelLoaded 1) 1 = Inr w' \<and>
      1 \<in> Components_Ready w')"
proof -
  let ?bmf = "\<lparr>fontId = 0, fontSprite = 10, fontTable = [1, 2, 3], fontColor = White\<rparr>"
  have a: "Components_BitmapFont labelLoaded 1 = None"
    by (simp add: labelLoaded_facts del: One_nat_def)
  then have b: "processLabel env0 labelLoaded 1 = Inr (addBitmapFontForLabel labelLoaded 1)"
    by (simp add: processLabel_def)
  have c: "Components_BitmapFont (addBitmapFontForLabel labelLoaded 1) 1 = Some (Some ?bmf)"
    "RenderSystem (addBitmapFontForLabel labelLoaded 1) = Some \<lparr>renderer = Some 1\<rparr>"
    by (simp_all add: labelLoaded_first labelLoaded_facts del: One_nat_def)
  from c(1) have d: "Components_BitmapFont (addBitmapFontForLabel labelLoaded 1) 1 \<noteq> None"
    by simp
  from label_ready_after_components
    [of labelLoaded 1 env0 "addBitmapFontForLabel labelLoaded 1"] a b d
  have 1: "\<exists>entry. map_of (labelLoadQueue labelLoaded) 1 = Some entry \<and>
      Components_File labelLoaded (table entry) \<noteq> None \<and>
      Components_FontTable labelLoaded (table entry) \<noteq> None \<and>
      Components_Sprite labelLoaded (sprite entry) \<noteq> None"
    by blast
  from label_ready_after_components
    [of "addBitmapFontForLabel labelLoaded 1" 1 env0 _ ?bmf "\<lparr>renderer = Some 1\<rparr>"] c
  have 2: "\<exists>w'. processLabel env0 (addBitmapFontForLabel labelLoaded 1) 1 = Inr w' \<and>
      1 \<in> Components_Ready w'"
    by blast
  from a b c 1 2 show ?thesis by blast
qed

subsection \<open>Finalizing a label on a cache hit\<close>

lemma labelHit_facts:
  "map_of (labelLoadQueue labelHit) 1 = Some \<lparr>table = 2, sprite = 3\<rparr>"
  "Components_BitmapFont labelHit 1 = None"
  "Components_File labelHit 2 = Some \<lparr>Path = ''F.tbl''\<rparr>"
  "Components_FontTable labelHit 2 = Some \<lparr>Data = Some [1, 2, 3]\<rparr>"
  "Components_Sprite labelHit 3 =
     Some \<lparr>Sprite = Some 10, SpritePath = ''F.dc6'', PalettePath = ''P''\<rparr>"
  "Retrieve (bitmapFontCache labelHit) ''F.tbl::F.dc6::P'' = Some cachedFont"
  "Components_Ready labelHit = {}"
  "entities labelHit = [1, 2, 3]"
  "boundRenderer labelHit = Map.empty"
  by (simp_all add: labelHit_def labelLoaded_facts Retrieve_def del: One_nat_def)

lemma labelHit_first:
  "addBitmapFontForLabel labelHit 1 =
     labelHit\<lparr>Components_BitmapFont := (Components_BitmapFont labelHit)(1 \<mapsto> Some cachedFont),
              Components_Ready := insert 1 (Components_Ready labelHit),
              labelLoadQueue := q_delete 1 (labelLoadQueue labelHit)\<rparr>"
  using addBitmapFontForLabel_hit
    [of labelHit 1 "\<lparr>table = 2, sprite = 3\<rparr>" "\<lparr>Path = ''F.tbl''\<rparr>"
        "\<lparr>Data = Some [1, 2, 3]\<rparr>"
        "\<lparr>Sprite = Some 10, SpritePath = ''F.dc6'', PalettePath = ''P''\<rparr>" cachedFont]
  by (simp add: labelHit_facts fontCacheKey_def del: One_nat_def)

text \<open>
  C5 at a failing input. In \<open>labelHit\<close> the font of label 1 is in the cache. One call
  of \<open>processLabel\<close> marks the label ready and removes its queue entry, but the
  glyph-table entity 2 is still alive with its File component, and the sprite of the font
  is bound to no renderer. On the other path, in \<open>labelLoaded\<close>, the call that marks
  the label ready removes entity 2 and binds the sprite of the font to the renderer.
\<close>

theorem cache_hit_keeps_table_entity:
  "map_of (labelLoadQueue labelHit) 1 = Some \<lparr>table = 2, sprite = 3\<rparr> \<and>
   1 \<notin> Components_Ready labelHit \<and>
   processLabel env0 labelHit 1 = Inr (addBitmapFontForLabel labelHit 1) \<and>
   1 \<in> Components_Ready (addBitmapFontForLabel labelHit 1) \<and>
   map_of (labelLoadQueue (addBitmapFontForLabel labelHit 1)) 1 = None \<and>
   Components_BitmapFont (addBitmapFontForLabel labelHit 1) 1 = Some (Some cachedFont) \<and>
   2 \<in> set (entities (addBitmapFontForLabel labelHit 1)) \<and>
   Components_File (addBitmapFontForLabel labelHit 1) 2 = Some \<lparr>Path = ''F.tbl''\<rparr> \<and>
   boundRenderer (addBitmapFontForLabel labelHit 1) (fontSprite cachedFont) = None \<and>
   entities (projr (processLabel env0 (addBitmapFontForLabel labelLoaded 1) 1)) = [1, 3] \<and>
   boundRenderer (projr (processLabel env0 (addBitmapFontForLabel labelLoaded 1) 1)) 10 =
     Some (Some 1)"
proof -
  have a: "map_of (labelLoadQueue labelHit) 1 = Some \<lparr>table = 2, sprite = 3\<rparr>"
    "1 \<notin> Components_Ready labelHit"
    "processLabel env0 labelHit 1 = Inr (addBitmapFontForLabel labelHit 1)"
    by (simp_all add: labelHit_facts processLabel_def del: One_nat_def)
  have b: "1 \<in> Components_Ready (addBitmapFontForLabel labelHit 1)"
    "map_of (labelLoadQueue (addBitmapFontForLabel labelHit 1)) 1 = None"
    "Components_BitmapFont (addBitmapFontForLabel labelHit 1) 1 = Some (Some cachedFont)"
    "2 \<in> set (entities (addBitmapFontForLabel labelHit 1))"
    "Components_File (addBitmapFontForLabel labelHit 1) 2 = Some \<lparr>Path = ''F.tbl''\<rparr>"
    "boundRenderer (addBitmapFontForLabel labelHit 1) (fontSprite cachedFont) = None"
    by (simp_all add: labelHit_first labelHit_facts map_of_q_delete del: One_nat_def)
  from labelLoaded_second obtain w' where
    r: "processLabel env0 (addBitmapFontForLabel labelLoaded 1) 1 = Inr w'"
       "entities w' = [1, 3]" "boundRenderer w' 10 = Some (Some 1)"
    by blast
  have c: "entities (projr (processLabel env0 (addBitmapFontForLabel labelLoaded 1) 1)) = [1, 3]"
    "boundRenderer (projr (processLabel env0 (addBitmapFontForLabel labelLoaded 1) 1)) 10 =
       Some (Some 1)"
    unfolding r(1) by (simp_all add: r(2,3))
  from a b c show ?thesis by blast
qed

subsection \<open>The key of the font cache\<close>





subsection \<open>Ready checkboxes have a texture\<close>

lemma checkboxInvariant_now [simp]:
  "checkboxInvariant (w\<lparr>now := t\<rparr>) = checkboxInvariant w"
  by (simp add: checkboxInvariant_def)

lemma processCheckbox_fields:
  assumes "processCheckbox env w c = Inr w'"
  shows "w' = w \<or>
     Components_Ready w' = insert c (Components_Ready w) \<and>
     entities w' = entities w \<and>
     buttonLoadQueue w' = buttonLoadQueue w \<and> labelLoadQueue w' = labelLoadQueue w \<and>
     Components_BitmapFont w' = Components_BitmapFont w \<and>
     Components_Texture w' c \<noteq> None \<and> Components_Checkbox w' c \<noteq> None \<and>
     (\<forall>e. e \<noteq> c \<longrightarrow> Components_Texture w' e = Components_Texture w e \<and>
                      Components_Checkbox w' e = Components_Checkbox w e)"
proof (cases "map_of (checkboxLoadQueue w) c")
  case None
  with assms show ?thesis by (simp add: processCheckbox_def)
next
  case (Some entry)
  show ?thesis
  proof (cases "checkbox_sprite entry \<in> Components_Ready w")
    case False
    with assms Some show ?thesis by (simp add: processCheckbox_def Let_def)
  next
    case True
    with assms Some have "w' \<noteq> w \<longrightarrow>
       Components_Ready w' = insert c (Components_Ready w) \<and>
       entities w' = entities w \<and>
       buttonLoadQueue w' = buttonLoadQueue w \<and> labelLoadQueue w' = labelLoadQueue w \<and>
       Components_BitmapFont w' = Components_BitmapFont w \<and>
       Components_Texture w' c \<noteq> None \<and> Components_Checkbox w' c \<noteq> None \<and>
       (\<forall>e. e \<noteq> c \<longrightarrow> Components_Texture w' e = Components_Texture w e \<and>
                      Components_Checkbox w' e = Components_Checkbox w e)"
      by (cases "Components_Sprite w (checkbox_sprite entry)")
         (auto simp: processCheckbox_def Let_def world_ops)
    then show ?thesis by blast
  qed
qed

lemma processCheckbox_inv:
  assumes "processCheckbox env w c = Inr w'" and "checkboxInvariant w"
  shows "checkboxInvariant w'"
  using processCheckbox_fields [OF assms(1)] assms(2)
  unfolding checkboxInvariant_def by (elim disjE conjE) (simp, metis insert_iff)

lemma updateCheckbox_fields:
  assumes "updateCheckbox env w e = Inr w'"
  shows "Components_Ready w' = Components_Ready w \<and> entities w' = entities w \<and>
     buttonLoadQueue w' = buttonLoadQueue w \<and> labelLoadQueue w' = labelLoadQueue w \<and>
     Components_BitmapFont w' = Components_BitmapFont w \<and>
     (\<forall>x. (Components_Checkbox w' x \<noteq> None \<longleftrightarrow> Components_Checkbox w x \<noteq> None) \<and>
          (Components_Texture w x \<noteq> None \<longrightarrow> Components_Texture w' x \<noteq> None))"
  using assms
  by (auto simp: updateCheckbox_def Let_def split: option.splits if_splits)

lemma updateCheckbox_inv:
  assumes "updateCheckbox env w c = Inr w'" and "checkboxInvariant w"
  shows "checkboxInvariant w'"
  using updateCheckbox_fields [OF assms(1)] assms(2)
  unfolding checkboxInvariant_def by metis

lemma updateButton_fields:
  assumes "updateButton env w b = Inr w'"
  shows "Components_Ready w' = Components_Ready w \<and>
     buttonLoadQueue w' = buttonLoadQueue w \<and> labelLoadQueue w' = labelLoadQueue w \<and>
     Components_BitmapFont w' = Components_BitmapFont w \<and>
     Components_Checkbox w' = Components_Checkbox w \<and>
     (\<forall>x. Components_Texture w x \<noteq> None \<longrightarrow> Components_Texture w' x \<noteq> None)"
  using assms
  by (auto simp: updateButton_def Let_def world_ops split: option.splits if_splits)

lemma updateButton_inv:
  assumes "updateButton env w b = Inr w'" and "checkboxInvariant w"
  shows "checkboxInvariant w'"
  using updateButton_fields [OF assms(1)] assms(2)
  unfolding checkboxInvariant_def by metis

lemma updateLabel_fields:
  assumes "updateLabel env w l = Inr w'"
  shows "Components_Ready w' = Components_Ready w \<and>
     buttonLoadQueue w' = buttonLoadQueue w \<and> labelLoadQueue w' = labelLoadQueue w \<and>
     Components_BitmapFont w' = Components_BitmapFont w \<and>
     Components_Checkbox w' = Components_Checkbox w \<and>
     (\<forall>x. Components_Texture w x \<noteq> None \<longrightarrow> Components_Texture w' x \<noteq> None)"
  using assms
  by (auto simp: updateLabel_def Let_def world_ops split: option.splits if_splits)

lemma updateLabel_inv:
  assumes "updateLabel env w l = Inr w'" and "checkboxInvariant w"
  shows "checkboxInvariant w'"
  using updateLabel_fields [OF assms(1)] assms(2)
  unfolding checkboxInvariant_def by metis

lemma keys_q_delete: "fst ` set (q_delete k q) \<subseteq> fst ` set q"
  by (auto simp: q_delete_def)

lemma renderButtonStates_fields:
  assumes "renderButtonStates w b = Inr w'"
  shows "Components_Checkbox w' = Components_Checkbox w \<and>
     Components_Texture w' = Components_Texture w \<and>
     Components_BitmapFont w' = Components_BitmapFont w \<and>
     labelLoadQueue w' = labelLoadQueue w \<and>
     (Components_Ready w' = Components_Ready w \<and> buttonLoadQueue w' = buttonLoadQueue w \<or>
      Components_Ready w' = insert b (Components_Ready w) \<and>
      buttonLoadQueue w' = q_delete b (buttonLoadQueue w))"
  using assms
  by (auto simp: renderButtonStates_def Let_def world_ops split: option.splits if_splits)

lemma processButtonStates_fields:
  assumes "processButtonStates env w b = Inr w'"
  shows "Components_Checkbox w' = Components_Checkbox w \<and>
     Components_Texture w' = Components_Texture w \<and>
     Components_BitmapFont w' = Components_BitmapFont w \<and>
     labelLoadQueue w' = labelLoadQueue w \<and>
     (Components_Ready w' = Components_Ready w \<and> buttonLoadQueue w' = buttonLoadQueue w \<or>
      Components_Ready w' = insert b (Components_Ready w) \<and>
      buttonLoadQueue w' = q_delete b (buttonLoadQueue w))"
proof (cases "Components_Button w b")
  case None
  with assms show ?thesis by (simp add: processButtonStates_def)
next
  case (Some button)
  show ?thesis
  proof (cases "0 < Normal (States button)")
    case True
    with assms Some have "renderButtonStates w b = Inr w'"
      by (simp add: processButtonStates_def Let_def)
    then show ?thesis by (rule renderButtonStates_fields)
  next
    case False
    with assms Some show ?thesis
      by (auto simp: processButtonStates_def Let_def world_ops split: if_splits)
  qed
qed

lemma processButton_go_fields:
  assumes "map_of (buttonLoadQueue w) b = Some entry"
    and "button_label entry \<in> Components_Ready w" "button_sprite entry \<in> Components_Ready w"
  shows "\<exists>w4. processButton env w b = processButtonStates env w4 b \<and>
     Components_Ready w4 = Components_Ready w \<and> buttonLoadQueue w4 = buttonLoadQueue w \<and>
     Components_Checkbox w4 = Components_Checkbox w \<and>
     Components_Texture w4 = Components_Texture w \<and>
     Components_BitmapFont w4 = Components_BitmapFont w \<and>
     labelLoadQueue w4 = labelLoadQueue w"
  unfolding processButton_def Let_def using assms
  apply simp
  apply (intro exI conjI)
        apply (rule refl)
       apply (simp_all add: world_ops Let_def split: option.splits)
  done

lemma processButton_inv:
  assumes "processButton env w b = Inr w'" and "checkboxInvariant w"
  shows "checkboxInvariant w'"
proof (cases "w' = w")
  case True
  with assms(2) show ?thesis by simp
next
  case False
  with assms(1) obtain entry where
    e: "map_of (buttonLoadQueue w) b = Some entry"
       "button_label entry \<in> Components_Ready w" "button_sprite entry \<in> Components_Ready w"
    by (rule processButton_changed)
  from e(1) have k: "b \<in> fst ` set (buttonLoadQueue w)"
    by (metis map_of_SomeD fst_conv image_eqI)
  from processButton_go_fields [OF e, of env] obtain w4 where
    w4: "processButton env w b = processButtonStates env w4 b"
    and fr: "Components_Ready w4 = Components_Ready w" "buttonLoadQueue w4 = buttonLoadQueue w"
      "Components_Checkbox w4 = Components_Checkbox w"
      "Components_Texture w4 = Components_Texture w"
      "Components_BitmapFont w4 = Components_BitmapFont w"
      "labelLoadQueue w4 = labelLoadQueue w"
    by (elim exE conjE)
  from w4 assms(1) have "processButtonStates env w4 b = Inr w'" by simp
  note g = processButtonStates_fields [OF this]
  from g fr have f:
    "Components_Checkbox w' = Components_Checkbox w"
    "Components_Texture w' = Components_Texture w"
    "Components_BitmapFont w' = Components_BitmapFont w"
    "labelLoadQueue w' = labelLoadQueue w"
    "Components_Ready w' \<subseteq> insert b (Components_Ready w)"
    by auto
  from g fr have "buttonLoadQueue w' = buttonLoadQueue w \<or>
      buttonLoadQueue w' = q_delete b (buttonLoadQueue w)"
    by auto
  with keys_q_delete [of b "buttonLoadQueue w"]
  have f6: "fst ` set (buttonLoadQueue w') \<subseteq> fst ` set (buttonLoadQueue w)"
    by (elim disjE) simp_all
  show ?thesis
    unfolding checkboxInvariant_def
  proof (intro allI impI)
    fix e assume c: "Components_Checkbox w' e \<noteq> None" and t: "Components_Texture w' e = None"
    with f assms(2) have old: "e \<notin> Components_Ready w" "e \<notin> fst ` set (buttonLoadQueue w)"
      "e \<notin> fst ` set (labelLoadQueue w)" "Components_BitmapFont w e = None"
      by (simp_all add: checkboxInvariant_def)
    from old(2) k have "e \<noteq> b" by blast
    with old f f6 show "e \<notin> Components_Ready w' \<and> e \<notin> fst ` set (buttonLoadQueue w') \<and>
        e \<notin> fst ` set (labelLoadQueue w') \<and> Components_BitmapFont w' e = None"
      by auto
  qed
qed

lemma addBitmapFontForLabel_fields:
  "Components_Checkbox (addBitmapFontForLabel w l) = Components_Checkbox w \<and>
   Components_Texture (addBitmapFontForLabel w l) = Components_Texture w \<and>
   buttonLoadQueue (addBitmapFontForLabel w l) = buttonLoadQueue w \<and>
   (addBitmapFontForLabel w l = w \<or>
    l \<in> fst ` set (labelLoadQueue w) \<and>
    (\<forall>e. e \<noteq> l \<longrightarrow>
       Components_BitmapFont (addBitmapFontForLabel w l) e = Components_BitmapFont w e) \<and>
    Components_Ready (addBitmapFontForLabel w l) \<subseteq> insert l (Components_Ready w) \<and>
    fst ` set (labelLoadQueue (addBitmapFontForLabel w l)) \<subseteq> fst ` set (labelLoadQueue w))"
proof (cases "map_of (labelLoadQueue w) l")
  case None
  then show ?thesis by (simp add: addBitmapFontForLabel_def)
next
  case (Some entry)
  then have "l \<in> fst ` set (labelLoadQueue w)"
    by (metis map_of_SomeD fst_conv image_eqI)
  with Some show ?thesis
    using keys_q_delete [of l "labelLoadQueue w"]
    by (auto simp: addBitmapFontForLabel_def createBitmapFont_def d2bitmapfont_New_def
          Ready_Add_def Let_def split: option.splits sum.splits)
qed

lemma processLabel_finalize_fields:
  assumes "processLabel env w l = Inr w'" and "Components_BitmapFont w l \<noteq> None"
  shows "Components_Checkbox w' =
           (Components_Checkbox w)(table (labelLoadQueue_index w l) := None) \<and>
     Components_Texture w' = (Components_Texture w)(table (labelLoadQueue_index w l) := None) \<and>
     Components_BitmapFont w' =
       (Components_BitmapFont w)(table (labelLoadQueue_index w l) := None) \<and>
     Components_Ready w' =
       insert l (Components_Ready w - {table (labelLoadQueue_index w l)}) \<and>
     buttonLoadQueue w' = buttonLoadQueue w \<and>
     labelLoadQueue w' = q_delete l (labelLoadQueue w)"
  using assms
  by (auto simp: processLabel_def Let_def world_ops labelLoadQueue_index_def
           split: option.splits)

lemma processLabel_inv:
  assumes "processLabel env w l = Inr w'" and "checkboxInvariant w"
  shows "checkboxInvariant w'"
proof (cases "Components_BitmapFont w l")
  case None
  with assms(1) have w': "w' = addBitmapFontForLabel w l" by (simp add: processLabel_def)
  note f = addBitmapFontForLabel_fields [of w l]
  show ?thesis
  proof (cases "w' = w")
    case True
    with assms(2) show ?thesis by simp
  next
    case False
    with f w' have g: "Components_Checkbox w' = Components_Checkbox w"
      "Components_Texture w' = Components_Texture w"
      "buttonLoadQueue w' = buttonLoadQueue w"
      "l \<in> fst ` set (labelLoadQueue w)"
      "\<forall>e. e \<noteq> l \<longrightarrow> Components_BitmapFont w' e = Components_BitmapFont w e"
      "Components_Ready w' \<subseteq> insert l (Components_Ready w)"
      "fst ` set (labelLoadQueue w') \<subseteq> fst ` set (labelLoadQueue w)"
      by simp_all
    show ?thesis
      unfolding checkboxInvariant_def
    proof (intro allI impI)
      fix e assume "Components_Checkbox w' e \<noteq> None" and "Components_Texture w' e = None"
      with g assms(2) have old: "e \<notin> Components_Ready w" "e \<notin> fst ` set (buttonLoadQueue w)"
        "e \<notin> fst ` set (labelLoadQueue w)" "Components_BitmapFont w e = None"
        by (simp_all add: checkboxInvariant_def)
      from old(3) g(4) have "e \<noteq> l" by blast
      with old g show "e \<notin> Components_Ready w' \<and> e \<notin> fst ` set (buttonLoadQueue w') \<and>
          e \<notin> fst ` set (labelLoadQueue w') \<and> Components_BitmapFont w' e = None"
        by auto
    qed
  qed
next
  case (Some bmfComponent)
  then have "Components_BitmapFont w l \<noteq> None" by simp
  note f = processLabel_finalize_fields [OF assms(1) this]
  let ?t = "table (labelLoadQueue_index w l)"
  show ?thesis
    unfolding checkboxInvariant_def
  proof (intro allI impI)
    fix e assume c: "Components_Checkbox w' e \<noteq> None" and t: "Components_Texture w' e = None"
    from c f have ne: "e \<noteq> ?t" by auto
    with c t f assms(2) have old: "e \<notin> Components_Ready w"
      "e \<notin> fst ` set (buttonLoadQueue w)"
      "e \<notin> fst ` set (labelLoadQueue w)" "Components_BitmapFont w e = None"
      by (simp_all add: checkboxInvariant_def)
    from old(4) Some have "e \<noteq> l" by auto
    with old ne f keys_q_delete [of l "labelLoadQueue w"]
    show "e \<notin> Components_Ready w' \<and> e \<notin> fst ` set (buttonLoadQueue w') \<and>
        e \<notin> fst ` set (labelLoadQueue w') \<and> Components_BitmapFont w' e = None"
      by auto
  qed
qed

lemma doWork_inv:
  "doWork env u w = Inr w' \<Longrightarrow> checkboxInvariant w \<Longrightarrow> checkboxInvariant w'"
  by (cases u)
     (auto intro: processButton_inv processCheckbox_inv processLabel_inv
        updateButton_inv updateCheckbox_inv updateLabel_inv)

text \<open>Only \<open>updateCheckbox\<close> can fail on a nil texture pointer.\<close>

lemma processButtonStates_panic:
  "processButtonStates env w b = Inl p \<Longrightarrow> p = NilButton"
  by (auto simp: processButtonStates_def renderButtonStates_def Let_def world_ops
           split: option.splits if_splits)

lemma processButton_panic:
  assumes "processButton env w b = Inl p"
  shows "p = NilButton"
proof (cases "map_of (buttonLoadQueue w) b")
  case None
  with assms processButton_skip(1) [of w b env] show ?thesis by simp
next
  case (Some entry)
  show ?thesis
  proof (cases "button_label entry \<in> Components_Ready w \<and>
                button_sprite entry \<in> Components_Ready w")
    case False
    with assms Some processButton_skip(2) [of w b entry env] show ?thesis by simp
  next
    case True
    then have r: "button_label entry \<in> Components_Ready w"
      "button_sprite entry \<in> Components_Ready w"
      by simp_all
    from processButton_go_fields [OF Some r, of env] obtain w4 where
      "processButton env w b = processButtonStates env w4 b"
      by (elim exE conjE)
    with assms processButtonStates_panic [of env w4 b p] show ?thesis by simp
  qed
qed

lemma doWork_NilTexture:
  assumes "doWork env u w = Inl NilTexture"
  shows "\<exists>e. u = UpdateCheckbox e \<and> Components_Checkbox w e \<noteq> None \<and>
              Components_Texture w e = None"
proof (cases u)
  case (ProcessButton e)
  with assms processButton_panic [of env w e NilTexture] show ?thesis by simp
next
  case (ProcessCheckbox e)
  with assms show ?thesis
    by (auto simp: processCheckbox_def Let_def split: option.splits if_splits)
next
  case (ProcessLabel e)
  with assms show ?thesis
    by (auto simp: processLabel_def Let_def split: option.splits if_splits)
next
  case (UpdateButton e)
  with assms show ?thesis
    by (auto simp: updateButton_def Let_def split: option.splits if_splits)
next
  case (UpdateCheckbox e)
  with assms show ?thesis
    by (auto simp: updateCheckbox_def Let_def split: option.splits if_splits)
next
  case (UpdateLabel e)
  with assms show ?thesis
    by (auto simp: updateLabel_def Let_def world_ops split: option.splits if_splits prod.splits)
qed

lemma drain_safe:
  assumes "checkboxInvariant w"
    and "(\<forall>u \<in> set us. \<forall>e. u \<noteq> UpdateCheckbox e) \<or>
         (\<forall>u \<in> set us. \<exists>e. u = UpdateCheckbox e \<and> e \<in> Components_Ready w)"
  shows "drain env start us w \<noteq> Inl NilTexture \<and>
         (\<forall>fl w'. drain env start us w = Inr (fl, w') \<longrightarrow> checkboxInvariant w')"
  using assms
proof (induction us arbitrary: w)
  case Nil
  then show ?case by simp
next
  case (Cons u us)
  show ?case
  proof (cases "now w - start > maxTimePerUpdate env")
    case True
    with Cons.prems show ?thesis by simp
  next
    case False
    show ?thesis
    proof (cases "doWork env u w")
      case (Inl p)
      have "p \<noteq> NilTexture"
      proof
        assume "p = NilTexture"
        with Inl doWork_NilTexture [of env u w] obtain e where
          e: "u = UpdateCheckbox e" "Components_Checkbox w e \<noteq> None"
             "Components_Texture w e = None"
          by blast
        with Cons.prems(2) have "e \<in> Components_Ready w" by auto
        with e Cons.prems(1) show False by (simp add: checkboxInvariant_def)
      qed
      with Inl False show ?thesis by simp
    next
      case (Inr w1)
      let ?w2 = "w1\<lparr>now := now w1 + unitCost env u w\<rparr>"
      from Inr Cons.prems(1) have i: "checkboxInvariant ?w2"
        by (simp add: doWork_inv)
      have "(\<forall>u \<in> set us. \<forall>e. u \<noteq> UpdateCheckbox e) \<or>
            (\<forall>u \<in> set us. \<exists>e. u = UpdateCheckbox e \<and> e \<in> Components_Ready ?w2)"
      proof (cases "\<forall>u \<in> set (u # us). \<forall>e. u \<noteq> UpdateCheckbox e")
        case True
        then show ?thesis by simp
      next
        case False
        with Cons.prems(2) have
          a: "\<forall>u \<in> set (u # us). \<exists>e. u = UpdateCheckbox e \<and> e \<in> Components_Ready w"
          by blast
        then obtain e where "u = UpdateCheckbox e" by auto
        with Inr have "updateCheckbox env w e = Inr w1" by simp
        from updateCheckbox_fields [OF this] have "Components_Ready w1 = Components_Ready w"
          by simp
        with a show ?thesis by simp
      qed
      from Cons.IH [OF i this] Inr False show ?thesis by simp
    qed
  qed
qed

lemma loops_safe:
  assumes "checkboxInvariant w"
    and "\<forall>units \<in> set ls.
           (\<forall>v. \<forall>u \<in> set (units v). \<forall>e. u \<noteq> UpdateCheckbox e) \<or>
           (\<forall>v. \<forall>u \<in> set (units v). \<exists>e. u = UpdateCheckbox e \<and> e \<in> Components_Ready v)"
  shows "loops env start ls w \<noteq> Inl NilTexture \<and>
         (\<forall>w'. loops env start ls w = Inr w' \<longrightarrow> checkboxInvariant w')"
  using assms
proof (induction ls arbitrary: w)
  case Nil
  then show ?case by simp
next
  case (Cons units rest)
  from Cons.prems(2) have
    "(\<forall>v. \<forall>u \<in> set (units v). \<forall>e. u \<noteq> UpdateCheckbox e) \<or>
     (\<forall>v. \<forall>u \<in> set (units v). \<exists>e. u = UpdateCheckbox e \<and> e \<in> Components_Ready v)"
    by simp
  then have
    "(\<forall>u \<in> set (units w). \<forall>e. u \<noteq> UpdateCheckbox e) \<or>
     (\<forall>u \<in> set (units w). \<exists>e. u = UpdateCheckbox e \<and> e \<in> Components_Ready w)"
    by blast
  note d = drain_safe [OF Cons.prems(1) this, of env start]
  show ?case
  proof (cases "drain env start (units w) w")
    case (Inl p)
    with d show ?thesis by simp
  next
    case (Inr r)
    obtain fl w1 where r: "r = (fl, w1)" by (cases r)
    with Inr d have i: "checkboxInvariant w1" by simp
    from Cons.prems(2) have
      "\<forall>units \<in> set rest.
           (\<forall>v. \<forall>u \<in> set (units v). \<forall>e. u \<noteq> UpdateCheckbox e) \<or>
           (\<forall>v. \<forall>u \<in> set (units v). \<exists>e. u = UpdateCheckbox e \<and> e \<in> Components_Ready v)"
      by simp
    from Cons.IH [OF i this] Inr r i show ?thesis by (cases fl) simp_all
  qed
qed

lemma Update_safe:
  assumes "checkboxInvariant w"
  shows "Update env w \<noteq> Inl NilTexture \<and>
         (\<forall>w'. Update env w = Inr w' \<longrightarrow> checkboxInvariant w')"
proof (cases "state w = SceneStateBooted")
  case False
  have "checkboxInvariant (boot w)"
    using assms by (simp add: boot_def checkboxInvariant_def split: option.splits)
  with False show ?thesis by (simp add: Update_def)
next
  case True
  let ?ls = "[\<lambda>w. map ProcessButton (map fst (buttonLoadQueue w)),
              \<lambda>w. map ProcessCheckbox (map fst (checkboxLoadQueue w)),
              \<lambda>w. map ProcessLabel (map fst (labelLoadQueue w)),
              \<lambda>w. map UpdateButton (buttonsToUpdate w),
              \<lambda>w. map UpdateCheckbox (checkboxesToUpdate w),
              \<lambda>w. map UpdateLabel (labelsToUpdate w)]"
  have "\<forall>units \<in> set ?ls.
           (\<forall>v. \<forall>u \<in> set (units v). \<forall>e. u \<noteq> UpdateCheckbox e) \<or>
           (\<forall>v. \<forall>u \<in> set (units v). \<exists>e. u = UpdateCheckbox e \<and> e \<in> Components_Ready v)"
    by (auto simp: checkboxesToUpdate_def)
  from loops_safe [OF assms this, of env "now w"] True show ?thesis
    by (simp add: Update_def Let_def del: loops.simps)
qed

text \<open>
  C10. \<open>processCheckbox\<close> attaches a Texture component to the checkbox before it
  marks it ready. Under the factory's invariant on checkboxes, every entity of the
  checkbox subscription has a Texture component, so \<open>updateCheckbox\<close> does not
  dereference a nil texture pointer on it; every unit of work keeps the invariant, and a
  whole tick keeps it and never panics on a nil texture pointer.
\<close>

theorem checkbox_ready_has_texture:
  "(processCheckbox env w c = Inr w1 \<longrightarrow> c \<notin> Components_Ready w \<longrightarrow>
      c \<in> Components_Ready w1 \<longrightarrow> Components_Texture w1 c \<noteq> None) \<and>
   (checkboxInvariant w \<longrightarrow>
      (\<forall>e \<in> set (checkboxesToUpdate w).
         Components_Texture w e \<noteq> None \<and> updateCheckbox env w e \<noteq> Inl NilTexture) \<and>
      (doWork env u w = Inr w2 \<longrightarrow> checkboxInvariant w2) \<and>
      Update env w \<noteq> Inl NilTexture \<and>
      (Update env w = Inr w3 \<longrightarrow> checkboxInvariant w3))"
proof (intro conjI impI ballI)
  assume "processCheckbox env w c = Inr w1" "c \<notin> Components_Ready w"
    "c \<in> Components_Ready w1"
  with processCheckbox_fields [of env w c w1] show "Components_Texture w1 c \<noteq> None"
    by auto
next
  fix e assume i: "checkboxInvariant w" and e: "e \<in> set (checkboxesToUpdate w)"
  then show t: "Components_Texture w e \<noteq> None"
    by (auto simp: checkboxInvariant_def checkboxesToUpdate_def)
  then show "updateCheckbox env w e \<noteq> Inl NilTexture"
    by (auto simp: updateCheckbox_def Let_def split: option.splits)
next
  assume "checkboxInvariant w" "doWork env u w = Inr w2"
  then show "checkboxInvariant w2" by (simp add: doWork_inv)
next
  assume "checkboxInvariant w"
  then show "Update env w \<noteq> Inl NilTexture" by (simp add: Update_safe)
next
  assume "checkboxInvariant w" "Update env w = Inr w3"
  then show "checkboxInvariant w3" by (simp add: Update_safe)
qed

lemma checkboxWorld_step:
  "processCheckbox env0 checkboxWorld 1 = Inr checkboxDone"
  "1 \<notin> Components_Ready checkboxWorld"
  "1 \<in> Components_Ready checkboxDone"
  "1 \<in> set (checkboxesToUpdate checkboxDone)"
  by (simp_all add: checkboxDone_def processCheckbox_def checkboxesToUpdate_def Let_def
        world_ops q_delete_def checkboxWorld_def example_defs)

lemma checkboxWorld_tick:
  "\<exists>w3. Update env0 checkboxWorld = Inr w3 \<and> 1 \<in> Components_Ready w3"
  by (simp add: tick_defs processCheckbox_def updateCheckbox_def checkboxWorld_def
        example_defs)

theorem checkbox_ready_has_texture_witness:
  "processCheckbox env0 checkboxWorld 1 = Inr checkboxDone \<and>
   1 \<notin> Components_Ready checkboxWorld \<and> 1 \<in> Components_Ready checkboxDone \<and>
   Components_Texture checkboxDone 1 \<noteq> None \<and>
   checkboxInvariant checkboxWorld \<and> checkboxInvariant checkboxDone \<and>
   1 \<in> set (checkboxesToUpdate checkboxDone) \<and>
   updateCheckbox env0 checkboxDone 1 \<noteq> Inl NilTexture \<and>
   Update env0 checkboxWorld \<noteq> Inl NilTexture \<and>
   (\<exists>w3. Update env0 checkboxWorld = Inr w3 \<and> checkboxInvariant w3)"
proof -
  note s = checkboxWorld_step
  have i: "checkboxInvariant checkboxWorld"
    by (auto simp: checkboxInvariant_def checkboxWorld_def example_defs)
  have d: "doWork env0 (ProcessCheckbox 1) checkboxWorld = Inr checkboxDone"
    using s(1) by simp
  obtain w3 where t: "Update env0 checkboxWorld = Inr w3"
    using checkboxWorld_tick by blast
  note th = checkbox_ready_has_texture
    [of env0 checkboxWorld 1 checkboxDone "ProcessCheckbox 1" checkboxDone w3]
  from th s have 1: "Components_Texture checkboxDone 1 \<noteq> None" by blast
  from th i d have 2: "checkboxInvariant checkboxDone" by blast
  from th i t have 3: "Update env0 checkboxWorld \<noteq> Inl NilTexture" "checkboxInvariant w3"
    by blast+
  note th2 = checkbox_ready_has_texture [of env0 checkboxDone 1 checkboxDone _ checkboxDone]
  from th2 2 s(4) have 4: "updateCheckbox env0 checkboxDone 1 \<noteq> Inl NilTexture" by blast
  from s i 1 2 3 4 t show ?thesis by blast
qed

end
